theory Spec2Isabelle
  imports Main "HOL-Library.Sublist"
begin

section \<open>Go library functions used by the engines\<close>

text \<open>
  Go strings are byte sequences, modelled as \<open>string\<close> (a list of 8-bit characters).
  \<open>strings.Split(s, "/")\<close> cuts at every separator and returns one more piece than there
  are separators, so the empty string gives one empty piece. Every call of the engine
  uses the one-byte separator \<open>/\<close>; the separator is the character \<open>sep\<close> here.
\<close>

fun Split :: "string \<Rightarrow> char \<Rightarrow> string list" where
  "Split [] sep = [[]]"
| "Split (c # cs) sep =
     (if c = sep then [] # Split cs sep
      else (case Split cs sep of
              [] \<Rightarrow> [[c]]
            | w # ws \<Rightarrow> (c # w) # ws))"

text \<open>\<open>strings.Join(elems, "/")\<close>: the elements with the separator between neighbours.\<close>

fun Join :: "string list \<Rightarrow> char \<Rightarrow> string" where
  "Join [] sep = []"
| "Join [x] sep = x"
| "Join (x # y # ys) sep = x @ sep # Join (y # ys) sep"

text \<open>
  \<open>strings.Replace(s, old, new, -1)\<close> for a non-empty \<open>old\<close>: every non-overlapping
  occurrence of \<open>old\<close>, found from left to right, is replaced by \<open>new\<close>. (With an empty
  \<open>old\<close> Go inserts \<open>new\<close> around every character; the engine never calls it so, and the
  model returns \<open>s\<close> there.)
\<close>

fun Replace :: "string \<Rightarrow> string \<Rightarrow> string \<Rightarrow> string" where
  "Replace [] old new = []"
| "Replace (c # cs) old new =
     (if old \<noteq> [] \<and> prefix old (c # cs)
      then new @ Replace (drop (length old - 1) cs) old new
      else c # Replace cs old new)"

section \<open>The core engine: identities\<close>

text \<open>\<open>server.Identity{v, l}\<close>: a version and a language, \<open>""\<close> for any.\<close>

record Identity =
  IdVersion :: string
  IdLanguage :: string

text \<open>The candidate lists of \<open>Engine.Run\<close>, built by \<open>append\<close> as in the source.\<close>

definition versions :: "string \<Rightarrow> string \<Rightarrow> string list" where
  "versions defversion version =
     (let vs = [defversion];
          vs = (if length version > 0 \<and> version \<noteq> defversion then vs @ [version] else vs)
      in vs @ [''''])"

definition languages :: "string \<Rightarrow> string \<Rightarrow> string list" where
  "languages deflanguage language =
     (let ls = [deflanguage];
          ls = (if length language > 0 \<and> language \<noteq> deflanguage then ls @ [language] else ls)
      in ls @ [''''])"

text \<open>The two nested \<open>range\<close> loops appending one identity per pair.\<close>

definition identities :: "string list \<Rightarrow> string list \<Rightarrow> Identity list" where
  "identities vs ls =
     fold (\<lambda>v acc. fold (\<lambda>l acc. acc @ [\<lparr>IdVersion = v, IdLanguage = l\<rparr>]) ls acc) vs []"

text \<open>
  The lookup loop over the identities (\<open>for _, n := range identities\<close>): the store is
  asked for each identity in turn and the loop leaves at the first answer that is not nil.
  The result carries the identities that were asked, in order.
\<close>

fun firstData :: "(Identity \<Rightarrow> 'a option) \<Rightarrow> Identity list \<Rightarrow> Identity list \<times> 'a option" where
  "firstData getData [] = ([], None)"
| "firstData getData (n # ns) =
     (case getData n of
        Some d \<Rightarrow> ([n], Some d)
      | None \<Rightarrow> (case firstData getData ns of (asked, r) \<Rightarrow> (n # asked, r)))"

section \<open>The core engine: data\<close>

text \<open>
  A page descriptor (\<open>.page\<close> file, an \<open>XConfig\<close>) with the keys the engines read.
  \<open>Get\<close> returns nil for a key that is absent: \<open>template\<close> and \<open>Redirect\<close> are
  \<open>None\<close> then, \<open>AcceptPathParameters\<close> compares unequal to \<open>true\<close>,
  \<open>GetString\<close> gives \<open>""\<close> and \<open>GetInt\<close> gives \<open>0\<close>. \<open>status\<close> and
  \<open>ptype\<close> (the key \<open>type\<close>) are only compared with string literals.
\<close>

record PageData =
  status :: string
  ptype :: string
  template :: "string option"
  AcceptPathParameters :: bool
  Redirect :: "string option"
  redirecturl :: string
  redirectcode :: int

text \<open>Resources of the stores are opaque to the engine: handles.\<close>

type_synonym InstanceData = nat
type_synonym CodeStream = nat
type_synonym LibraryStream = nat
type_synonym XTemplate = nat
type_synonym XLanguage = nat
type_synonym EntryParams = "nat option"

text \<open>\<open>enginecontext.Context\<close>, without the request, the writer and the plugins.\<close>

record Context =
  LocalPage :: string
  LocalPageUsed :: string
  LocalURLparams :: "string list"
  LocalPageparams :: PageData
  LocalInstanceparams :: InstanceData
  LocalEntryparams :: EntryParams
  MainPage :: string
  MainPageUsed :: string
  MainURLparams :: "string list"
  MainPageparams :: PageData
  MainInstanceparams :: InstanceData

text \<open>The host configuration (\<open>e.Host.Config\<close>), with the keys \<open>Engine\<close> reads.\<close>

record HostConfig =
  config_mainpage :: string
  config_version :: string
  config_language :: string

text \<open>What the engine writes to the response writer.\<close>

datatype effect =
    HttpError string nat
  | HttpRedirect string int
  | Write string

record Engine =
  Page :: string
  Host :: HostConfig
  MainContext :: "Context option"
  Recursivity :: "string list"
  QT :: nat
  writer :: "effect list"

text \<open>
  The stores and the content generators are collaborators outside the engine: the servers'
  \<open>GetData\<close>, and \<open>Run\<close>, \<open>Print\<close> and \<open>fmt.Sprint\<close> of the resources they return.
  The generators are taken as functions of the context they are given.
\<close>

record Server =
  pageserver_GetData :: "string \<Rightarrow> PageData option"
  instanceserver_GetData :: "string \<Rightarrow> Identity \<Rightarrow> InstanceData option"
  codeserver_GetData :: "string \<Rightarrow> Identity \<Rightarrow> CodeStream option"
  libraryserver_GetData :: "string \<Rightarrow> LibraryStream option"
  templateserver_GetData :: "string \<Rightarrow> Identity \<Rightarrow> XTemplate option"
  languageserver_GetData :: "string \<Rightarrow> Identity \<Rightarrow> XLanguage option"
  codedata_Run :: "CodeStream \<Rightarrow> Context \<Rightarrow> XLanguage option \<Rightarrow> string"
  librarydata_Run ::
    "LibraryStream \<Rightarrow> Context \<Rightarrow> XTemplate option \<Rightarrow> XLanguage option \<Rightarrow> string"
  templatedata_Print :: "XTemplate \<Rightarrow> string"
  languagedata_Sprint :: "XLanguage \<Rightarrow> string"

text \<open>The run-time panics of Go that the engines can reach.\<close>

datatype panic = IndexOutOfRange | SliceBoundsOutOfRange | NilDereference | TypeAssertion

section \<open>The core engine: operations\<close>

definition launchError :: "Engine \<Rightarrow> bool \<Rightarrow> string \<Rightarrow> Engine \<times> string" where
  "launchError e innerpage message =
     (if \<not> innerpage then (e\<lparr>writer := writer e @ [HttpError message 404]\<rparr>, [])
      else (e, message))"

definition launchRedirect :: "Engine \<Rightarrow> string \<Rightarrow> Engine" where
  "launchRedirect e url = e\<lparr>writer := writer e @ [HttpRedirect url 301]\<rparr>"

definition isAvailable :: "bool \<Rightarrow> PageData \<Rightarrow> bool" where
  "isAvailable innerpage p =
     (if status p = ''hidden'' then False
      else if status p = ''published'' then True
      else if innerpage \<and> (status p = ''template'' \<or> status p = ''block'') then True
      else False)"

text \<open>\<open>// return true if there is a recursion\<close>\<close>

definition verifyRecursion :: "Engine \<Rightarrow> string \<Rightarrow> bool" where
  "verifyRecursion e page = False"

definition loadTemplate :: "Server \<Rightarrow> string \<Rightarrow> Identity list \<Rightarrow> XTemplate option" where
  "loadTemplate srv P ids = snd (firstData (templateserver_GetData srv P) ids)"

definition loadLanguage :: "Server \<Rightarrow> string \<Rightarrow> Identity list \<Rightarrow> XLanguage option" where
  "loadLanguage srv P ids = snd (firstData (languageserver_GetData srv P) ids)"

text \<open>
  The search loop of \<open>Engine.Run\<close> for the \<open>.page\<close>: ask the store for \<open>P\<close>; leave
  with the descriptor when there is one and it is available; otherwise cut the last
  segment off \<open>P\<close> and go round again, or leave without a descriptor when \<open>P\<close> has a
  single segment. The result is the list of the paths asked, the descriptor and \<open>P\<close>.
\<close>

function locate :: "Server \<Rightarrow> bool \<Rightarrow> string \<Rightarrow> string list \<times> PageData option \<times> string" where
  "locate srv innerpage P =
     (case (case pageserver_GetData srv P of
              Some pagedata \<Rightarrow> if isAvailable innerpage pagedata then Some pagedata else None
            | None \<Rightarrow> None) of
        Some pagedata \<Rightarrow> ([P], Some pagedata, P)
      | None \<Rightarrow>
          (let path = Split P CHR ''/'' in
           if length path \<le> 1 then ([P], None, P)
           else (case locate srv innerpage (Join (butlast path) CHR ''/'') of
                   (asked, r) \<Rightarrow> (P # asked, r))))"
  by pat_completeness auto
termination
proof (relation "measure (\<lambda>(srv, innerpage, P). length P)")
  have split_ne: "Split s c \<noteq> []" for s c
    by (induction s) (auto split: list.splits)
  have join_split: "Join (Split s c) c = s" for s c
  proof (induction s)
    case Nil
    show ?case by simp
  next
    case (Cons a s)
    obtain w ws where ws: "Split s c = w # ws"
      using split_ne [of s c] by (cases "Split s c") auto
    show ?case
    proof (cases "a = c")
      case True
      with Cons ws show ?thesis by simp
    next
      case False
      with Cons ws show ?thesis by (cases ws) auto
    qed
  qed
  have join_snoc: "length (Join xs c) < length (Join (xs @ [x]) c)" if "xs \<noteq> []" for xs x c
    using that
  proof (induction xs)
    case Nil
    then show ?case by simp
  next
    case (Cons a xs)
    show ?case
    proof (cases xs)
      case Nil
      then show ?thesis by simp
    next
      case (Cons b bs)
      with Cons.IH show ?thesis by simp
    qed
  qed
  have shorter: "length (Join (butlast (Split P c)) c) < length P"
    if "\<not> length (Split P c) \<le> 1" for P c
  proof -
    let ?xs = "Split P c"
    have ne: "?xs \<noteq> []" using that by auto
    have "butlast ?xs \<noteq> []" using that by (cases ?xs) (auto split: if_splits)
    then have "length (Join (butlast ?xs) c) < length (Join (butlast ?xs @ [last ?xs]) c)"
      by (rule join_snoc)
    also have "butlast ?xs @ [last ?xs] = ?xs" using ne by simp
    finally show ?thesis by (simp add: join_split)
  qed
  show "wf (measure (\<lambda>(srv, innerpage, P). length P))" by simp
  show "((srv, innerpage, Join (butlast path) CHR ''/''), (srv, innerpage, P))
          \<in> measure (\<lambda>(srv, innerpage, P). length P)"
    if "path = Split P CHR ''/''" and "\<not> length path \<le> 1"
    for srv :: Server and innerpage :: bool and P path
    using that shorter [of P "CHR ''/''"] by simp
qed

declare locate.simps [simp del]

text \<open>
  The extra path parameters: \<open>strings.Split(page[len(P)+1:], "/")\<close> when \<open>P\<close> is not
  the page asked, and the nil slice otherwise.
\<close>

definition xParams :: "string \<Rightarrow> string \<Rightarrow> string list" where
  "xParams page P = (if P \<noteq> page then Split (drop (length P + 1) page) CHR ''/'' else [])"

text \<open>
  The context of one level. An inner call copies the main fields from \<open>e.MainContext\<close>
  (a nil pointer there panics); the top-level call fills them from its own level and
  becomes the main context of the engine.
\<close>

definition makeContext ::
  "Engine \<Rightarrow> bool \<Rightarrow> string \<Rightarrow> string \<Rightarrow> string list \<Rightarrow> PageData \<Rightarrow> InstanceData \<Rightarrow> EntryParams
   \<Rightarrow> panic + Engine \<times> Context" where
  "makeContext e innerpage page P xparams pagedata instancedata params =
     (if innerpage then
        (case MainContext e of
           None \<Rightarrow> Inl NilDereference
         | Some m \<Rightarrow>
             Inr (e, \<lparr>LocalPage = page, LocalPageUsed = P, LocalURLparams = xparams,
                      LocalPageparams = pagedata, LocalInstanceparams = instancedata,
                      LocalEntryparams = params,
                      MainPage = MainPage m, MainPageUsed = MainPageUsed m,
                      MainURLparams = MainURLparams m, MainPageparams = MainPageparams m,
                      MainInstanceparams = MainInstanceparams m\<rparr>))
      else
        (let ctx = \<lparr>LocalPage = page, LocalPageUsed = P, LocalURLparams = xparams,
                    LocalPageparams = pagedata, LocalInstanceparams = instancedata,
                    LocalEntryparams = params,
                    MainPage = page, MainPageUsed = P,
                    MainURLparams = xparams, MainPageparams = pagedata,
                    MainInstanceparams = instancedata\<rparr>
         in Inr (e\<lparr>MainContext := Some ctx\<rparr>, ctx)))"

text \<open>
  The \<open>switch pagedata.Get("type")\<close>: the code of the page, or the message of the
  \<open>launchError\<close> the branch returns with.
\<close>

definition pageCode ::
  "Server \<Rightarrow> Context \<Rightarrow> PageData \<Rightarrow> string \<Rightarrow> Identity list \<Rightarrow> string + string" where
  "pageCode srv ctx pagedata P ids =
     (if ptype pagedata = ''simple'' then
        (case snd (firstData (codeserver_GetData srv P) ids) of
           None \<Rightarrow> Inl ''Error: the simple page/block has no code''
         | Some codedata \<Rightarrow> Inr (codedata_Run srv codedata ctx (loadLanguage srv P ids)))
      else if ptype pagedata = ''library'' then
        (case libraryserver_GetData srv P of
           None \<Rightarrow> Inl ''Error: the library page/block has no code''
         | Some librarydata \<Rightarrow>
             (let languagedata = loadLanguage srv P ids;
                  templatedata = loadTemplate srv P ids
              in Inr (librarydata_Run srv librarydata ctx templatedata languagedata)))
      else if ptype pagedata = ''template'' then
        (case loadTemplate srv P ids of
           None \<Rightarrow> Inl ''Error: the template page/block has no code''
         | Some templatedata \<Rightarrow> Inr (templatedata_Print srv templatedata))
      else if ptype pagedata = ''language'' then
        (case loadLanguage srv P ids of
           None \<Rightarrow> Inl ''Error: the language page/block has no code''
         | Some languagedata \<Rightarrow> Inr (languagedata_Sprint srv languagedata))
      else Inr ''THIS IS SOMETHING UNKNOWN FROM A PARALLEL UNIVERSE THAT SHOULD NOT HAPPEN'')"

text \<open>
  \<open>Engine.Run\<close> from its entry to the code of the page, before the parent template is
  looked at: either the call has returned (with a panic, or with the engine and the
  string returned), or the level has its descriptor and its code.
\<close>

datatype stage =
    Returned "panic + Engine \<times> string"
  | Generated Engine PageData string

definition runPage ::
  "Server \<Rightarrow> Engine \<Rightarrow> string \<Rightarrow> bool \<Rightarrow> EntryParams \<Rightarrow> string \<Rightarrow> string \<Rightarrow> stage" where
  "runPage srv e page innerpage params vers lang =
     (case locate srv innerpage page of
        (asked, None, P) \<Rightarrow>
          Returned (Inr (launchError e innerpage (''Error 404: no page found .page for '' @ page)))
      | (asked, Some pagedata, P) \<Rightarrow>
          if P \<noteq> page \<and> \<not> AcceptPathParameters pagedata
          then Returned (Inr (launchError e innerpage ''Error 404: no page found with parameters''))
          else if P \<noteq> page \<and> length page < length P + 1
          then Returned (Inl SliceBoundsOutOfRange)
          else if \<not> innerpage \<and> ptype pagedata = ''redirect''
          then (case Redirect pagedata of
                  None \<Rightarrow> Returned (Inl TypeAssertion)
                | Some url \<Rightarrow> Returned (Inr (launchRedirect e url, [])))
          else
            (let ids = identities (versions (config_version (Host e)) vers)
                                  (languages (config_language (Host e)) lang)
             in case snd (firstData (instanceserver_GetData srv P) ids) of
                  None \<Rightarrow>
                    Returned (Inr (launchError e innerpage ''Error: the page/block has no instance''))
                | Some instancedata \<Rightarrow>
                    if verifyRecursion e P
                    then Returned (Inr (launchError e innerpage ''Error: the page/block is recursive''))
                    else (case makeContext e innerpage page P (xParams page P) pagedata
                                 instancedata params of
                            Inl p \<Rightarrow> Returned (Inl p)
                          | Inr (e', ctx) \<Rightarrow>
                              (case pageCode srv ctx pagedata P ids of
                                 Inl message \<Rightarrow> Returned (Inr (launchError e' innerpage message))
                               | Inr xdata \<Rightarrow> Generated e' pagedata xdata))))"

text \<open>
  \<open>Engine.Run\<close>. The call for the parent template is the only recursion; nothing bounds
  it in the source, so the model counts it with fuel and \<open>None\<close> is a call that has not
  returned within the fuel.
\<close>

fun Engine_Run ::
  "nat \<Rightarrow> Server \<Rightarrow> Engine \<Rightarrow> string \<Rightarrow> bool \<Rightarrow> EntryParams \<Rightarrow> string \<Rightarrow> string \<Rightarrow> string
   \<Rightarrow> (panic + Engine \<times> string) option" where
  "Engine_Run 0 srv e page innerpage params vers lang method = None"
| "Engine_Run (Suc fuel) srv e page innerpage params vers lang method =
     (case runPage srv e page innerpage params vers lang of
        Returned r \<Rightarrow> Some r
      | Generated e' pagedata xdata \<Rightarrow>
          (case template pagedata of
             None \<Rightarrow> Some (Inr (e', xdata))
           | Some x \<Rightarrow>
               if x = [] then Some (Inr (e', xdata))
               else (case Engine_Run fuel srv e' x True params vers lang method of
                       None \<Rightarrow> None
                     | Some (Inl p) \<Rightarrow> Some (Inl p)
                     | Some (Inr (e'', fathertemplate)) \<Rightarrow>
                         Some (Inr (e'', Replace fathertemplate ''[[CONTENT]]'' xdata)))))"

text \<open>\<open>Engine.Start\<close>: the entry point of a request for \<open>e.Page\<close>.\<close>

definition Start :: "nat \<Rightarrow> Server \<Rightarrow> Engine \<Rightarrow> (panic + Engine) option" where
  "Start fuel srv e0 =
     (let e = e0\<lparr>QT := QT e0 + 1\<rparr>;
          page = Page e
      in case page of
           [] \<Rightarrow> Some (Inl IndexOutOfRange)
         | c # rest \<Rightarrow>
             (let page = (if c = CHR ''/'' then rest else page)
              in if length page > 0 \<and> last page = CHR ''/''
                 then Some (Inr (launchRedirect e (butlast page)))
                 else
                   (let page = (if length page = 0 then config_mainpage (Host e) else page)
                    in case Engine_Run fuel srv e page False None [] [] [] of
                         None \<Rightarrow> None
                       | Some (Inl p) \<Rightarrow> Some (Inl p)
                       | Some (Inr (e', code)) \<Rightarrow>
                           Some (Inr (e'\<lparr>writer := writer e' @ [Write code]\<rparr>)))))"


section \<open>The redirect engine\<close>

text \<open>
  \<open>assets.Context\<close> with the fields the redirect and the library engine use. The main
  page parameters are the descriptor of the page asked; \<open>Writer\<close> holds what has been
  written to the response.
\<close>

record AContext =
  IsMainPage :: bool
  AMainPage :: string
  AMainPageparams :: PageData
  AMainURLparams :: "string list"
  Code :: int
  Writer :: "effect list"

text \<open>A Go value returned as \<open>interface{}\<close>: a string, an error, or something else.\<close>

datatype goval = VString string | VError string | VOther nat

definition RedirectEngine_Run :: "AContext \<Rightarrow> AContext \<times> goval" where
  "RedirectEngine_Run ctx =
     (if IsMainPage ctx \<and> redirecturl (AMainPageparams ctx) \<noteq> []
      then
        (let url = redirecturl (AMainPageparams ctx);
             code = redirectcode (AMainPageparams ctx);
             code = (if code \<noteq> 301 \<and> code \<noteq> 302 \<and> code \<noteq> 307 \<and> code \<noteq> 308
                     then 308 else code)
         in (ctx\<lparr>Writer := Writer ctx @ [HttpRedirect url code]\<rparr>, VString []))
      else
        (let errortext = ''Please specify redirecturl and redirectcode in .page '' @ AMainPage ctx
         in (ctx\<lparr>Code := 500\<rparr>, VError errortext)))"

section \<open>The library engine\<close>

text \<open>
  \<open>assets.Plugin\<close>: the state of one compiled module. \<open>Libs\<close> maps a build identifier
  to the handle of a loaded plugin, \<open>Lib\<close> is the handle in use (nil before a load and
  after a load that failed) and \<open>Run\<close> the standard entry point found in it. A symbol
  of a plugin either has the standard signature or not.
\<close>

datatype Symbol = StandardFunction nat | OtherSymbol

record Plugin =
  SourcePath :: string
  PluginPath :: string
  PluginVPath :: string
  Version :: int
  Messages :: string
  Status :: int
  Libs :: "string \<rightharpoonup> nat"
  Lib :: "nat option"
  Run :: "nat option"

record LibraryEngineInstance =
  InstanceSourcePath :: string
  InstancePluginPath :: string

text \<open>
  The file system, the compiler, the Go tool chain, the plugin loader and the encoders are
  outside the engine. Errors are carried by their text (\<open>fmt.Sprint(err)\<close>).
  \<open>PleaseCompile\<close> receives the module by pointer and may change it.
  \<open>CombinedOutput\<close> is the output of \<open>go tool buildid path\<close> with the error, if any.
\<close>

record LibEnv =
  FileExists :: "string \<Rightarrow> bool"
  ModTime :: "string \<Rightarrow> nat"
  FileValidator :: "string \<Rightarrow> nat \<Rightarrow> bool"
  PleaseCompile :: "Plugin \<Rightarrow> string option \<times> Plugin"
  CombinedOutput :: "string \<Rightarrow> string \<times> string option"
  plugin_Open :: "string \<Rightarrow> string + nat"
  Lookup :: "nat \<Rightarrow> string \<Rightarrow> string + Symbol"
  call :: "nat \<Rightarrow> AContext \<Rightarrow> XTemplate option \<Rightarrow> XLanguage option \<Rightarrow> EntryParams \<Rightarrow> goval"
  Title :: "string \<Rightarrow> string"
  injectLanguage :: "XLanguage \<Rightarrow> string \<Rightarrow> string"
  xml_Unmarshal :: "string \<Rightarrow> string + nat"
  json_Marshal_app :: "nat \<Rightarrow> string + string"
  json_Marshal_message :: "string \<Rightarrow> string + string"
  json_Marshal :: "goval \<Rightarrow> string + string"

text \<open>
  The modules are objects shared through pointers: \<open>LibraryCache\<close> maps a source path
  to the address of a module, and what \<open>Run\<close> assigns to a field of \<open>lib\<close> changes the
  object the cache points to. \<open>objects\<close> is the store of the modules and
  \<open>nextObject\<close> the first address not yet allocated. The cache is created without
  limits and without a validator, so an entry that was set stays.
\<close>

record LibState =
  objects :: "nat \<Rightarrow> Plugin"
  nextObject :: nat
  LibraryCache :: "string \<rightharpoonup> nat"

definition store :: "LibState \<Rightarrow> nat \<Rightarrow> Plugin \<Rightarrow> LibState" where
  "store st a lib = st\<lparr>objects := (objects st)(a := lib)\<rparr>"

definition LibraryCache_Set :: "LibState \<Rightarrow> string \<Rightarrow> nat \<Rightarrow> LibState" where
  "LibraryCache_Set st key a = st\<lparr>LibraryCache := (LibraryCache st)(key \<mapsto> a)\<rparr>"

definition getBuildId :: "LibEnv \<Rightarrow> string \<Rightarrow> string" where
  "getBuildId env path =
     (case CombinedOutput env path of
        (out, Some err) \<Rightarrow> ''Error running go tool buildid:'' @ [CHR 0x0A] @ err
      | (out, None) \<Rightarrow> out)"

text \<open>The module of the instance: the cached one, or a new one (not yet in the cache).\<close>

definition getLib :: "LibState \<Rightarrow> LibraryEngineInstance \<Rightarrow> nat \<times> Plugin \<times> LibState" where
  "getLib st p =
     (case LibraryCache st (InstanceSourcePath p) of
        Some a \<Rightarrow> (a, objects st a, st)
      | None \<Rightarrow>
          (nextObject st,
           \<lparr>SourcePath = InstanceSourcePath p, PluginPath = InstancePluginPath p,
            PluginVPath = InstancePluginPath p @ ''.1'', Version = 0, Messages = [],
            Status = 0, Libs = Map.empty, Lib = None, Run = None\<rparr>,
           st\<lparr>nextObject := Suc (nextObject st)\<rparr>))"

definition mustcompile :: "LibEnv \<Rightarrow> Plugin \<Rightarrow> bool" where
  "mustcompile env lib =
     (if FileExists env (PluginVPath lib)
      then (let dptime = ModTime env (PluginVPath lib)
            in if FileValidator env (SourcePath lib) dptime then False else True)
      else True)"

text \<open>
  \<open>if mustcompile { ... }\<close>: \<open>Inl\<close> is the module when the compiler failed (the call
  returns with its messages), \<open>Inr\<close> the module when the call goes on.
\<close>

definition compileLib :: "LibEnv \<Rightarrow> Plugin \<Rightarrow> Plugin + Plugin" where
  "compileLib env lib =
     (if mustcompile env lib then
        (case PleaseCompile env (lib\<lparr>Status := 0\<rparr>) of
           (Some err, lib') \<Rightarrow>
             Inl (lib'\<lparr>Status := 2,
                       Messages := Messages lib' @ ''Error: '' @ SourcePath lib'
                                   @ '' could not compile:'' @ [CHR 0x0A] @ err\<rparr>)
         | (None, lib') \<Rightarrow> Inr lib')
      else Inr lib)"

text \<open>The lookup of \<open>Run\<close> in the plugin in use and the check of its signature.\<close>

definition lookupRun :: "LibEnv \<Rightarrow> Plugin \<Rightarrow> nat \<Rightarrow> Plugin + Plugin" where
  "lookupRun env lib h =
     (case Lookup env h ''Run'' of
        Inl err \<Rightarrow>
          Inl (lib\<lparr>Status := 2,
                   Messages := Messages lib @ ''Error: '' @ SourcePath lib
                               @ '' does not contain a Run function:'' @ [CHR 0x0A] @ err\<rparr>)
      | Inr (StandardFunction f) \<Rightarrow> Inr (lib\<lparr>Run := Some f, Status := 1\<rparr>)
      | Inr OtherSymbol \<Rightarrow>
          Inl (lib\<lparr>Run := None, Status := 2,
                   Messages := Messages lib @ ''Error: '' @ SourcePath lib
                               @ '' does not contain a valid standard Run function:''
                               @ [CHR 0x0A]\<rparr>))"

text \<open>
  \<open>if lib.Status == 0 { ... }\<close>: \<open>Inl\<close> is the module when the block returns with its
  messages, \<open>Inr\<close> the module with status 1. Every way out of the block sets the cache.
\<close>

definition loadLib :: "LibEnv \<Rightarrow> Plugin \<Rightarrow> Plugin + Plugin" where
  "loadLib env lib =
     (let buildid = getBuildId env (PluginVPath lib)
      in case Libs lib buildid of
           Some plg \<Rightarrow> lookupRun env (lib\<lparr>Lib := Some plg\<rparr>) plg
         | None \<Rightarrow>
             (case plugin_Open env (PluginVPath lib) of
                Inl err \<Rightarrow>
                  Inl (lib\<lparr>Lib := None, Status := 2,
                           Messages := Messages lib @ ''Error: '' @ SourcePath lib
                                       @ '' could not load:'' @ [CHR 0x0A] @ err\<rparr>)
              | Inr h \<Rightarrow>
                  lookupRun env (lib\<lparr>Lib := Some h, Libs := (Libs lib)(buildid \<mapsto> h)\<rparr>) h))"

text \<open>The conversion of the result when the output asked is \<open>json\<close>.\<close>

definition toJson :: "LibEnv \<Rightarrow> XLanguage option \<Rightarrow> goval \<Rightarrow> panic + goval" where
  "toJson env lang x1 =
     (case x1 of
        VString strcode \<Rightarrow>
          if strcode = [] then Inr (VString [])
          else
            (let strcode = (case lang of
                              Some l \<Rightarrow> injectLanguage env l strcode
                            | None \<Rightarrow> strcode)
             in case strcode of
                  [] \<Rightarrow> Inl IndexOutOfRange
                | c # cs \<Rightarrow>
                    if c = CHR ''<'' then
                      (case xml_Unmarshal env strcode of
                         Inl err \<Rightarrow>
                           Inr (VString (''ERROR: UNMARSHALLING XML LIBRARY, Error: '' @ err))
                       | Inr app \<Rightarrow>
                           (case json_Marshal_app env app of
                              Inl err \<Rightarrow>
                                Inr (VString (''ERROR: MARSHALLING JSON LIBRARY, Error: '' @ err))
                            | Inr js \<Rightarrow> Inr (VString js)))
                    else if c = CHR 0x7B \<or> c = CHR 0x5B then Inr (VString strcode)
                    else
                      (case json_Marshal_message env strcode of
                         Inl err \<Rightarrow>
                           Inr (VString (''ERROR: MARSHALLING JSON DATA, Error: '' @ err))
                       | Inr js \<Rightarrow> Inr (VString js)))
      | _ \<Rightarrow>
          (case json_Marshal env x1 of
             Inl err \<Rightarrow> Inr (VString (''ERROR: MARSHALLING JSON DATA, Error: '' @ err))
           | Inr js \<Rightarrow> Inr (VString js)))"

text \<open>
  The call of the function asked, in the plugin in use (from \<open>fctname := "Run"\<close> to the
  end of \<open>Run\<close>). \<open>Lookup\<close> on a nil plugin panics.
\<close>

definition dispatch ::
  "LibEnv \<Rightarrow> Plugin \<Rightarrow> AContext \<Rightarrow> XTemplate option \<Rightarrow> XLanguage option \<Rightarrow> EntryParams
   \<Rightarrow> panic + goval" where
  "dispatch env lib ctx templ lang e =
     (let fctname = (case AMainURLparams ctx of
                       [] \<Rightarrow> ''Run''
                     | p1 # ps \<Rightarrow> if p1 \<noteq> ''code'' then Title env p1 else ''Run'');
          out = (case AMainURLparams ctx of
                   p1 # p2 # ps \<Rightarrow> p2
                 | _ \<Rightarrow> ''string'')
      in case Lib lib of
           None \<Rightarrow> Inl NilDereference
         | Some h \<Rightarrow>
             (case Lookup env h fctname of
                Inl err \<Rightarrow>
                  Inr (VString (''ERROR: WAJAF LIBRARY DOES NOT CONTAIN FUNCTION '' @ fctname
                                @ '', Error: '' @ err))
              | Inr OtherSymbol \<Rightarrow>
                  Inr (VString (''ERROR: WAJAF LIBRARY::'' @ fctname
                                @ '' HAS NOT A VALID STANDARD DEFINITION, Error: '' @ ''<nil>''))
              | Inr (StandardFunction f) \<Rightarrow>
                  (let x1 = call env f ctx templ lang e
                   in if out = ''json'' then toJson env lang x1 else Inr x1)))"

text \<open>
  \<open>LibraryEngineInstance.Run\<close>. The result is the state of the modules after the call
  and what the call returns.
\<close>

definition LibraryEngineInstance_Run ::
  "LibEnv \<Rightarrow> LibState \<Rightarrow> LibraryEngineInstance \<Rightarrow> AContext \<Rightarrow> XTemplate option
   \<Rightarrow> XLanguage option \<Rightarrow> EntryParams \<Rightarrow> LibState \<times> (panic + goval)" where
  "LibraryEngineInstance_Run env st0 p ctx templ lang e =
     (case getLib st0 p of (a, lib, st) \<Rightarrow>
        if \<not> FileExists env (SourcePath lib) then
          (if Status lib \<noteq> 2 then
             (let lib = lib\<lparr>Status := 2,
                            Messages := Messages lib @ ''Error: '' @ SourcePath lib
                                        @ '' Source file does not exists.'' @ [CHR 0x0A]\<rparr>
              in (LibraryCache_Set (store st a lib) (SourcePath lib) a,
                  Inr (VString (Messages lib))))
           else (st, Inr (VString (Messages lib))))
        else
          (case compileLib env lib of
             Inl lib \<Rightarrow>
               (LibraryCache_Set (store st a lib) (SourcePath lib) a, Inr (VString (Messages lib)))
           | Inr lib \<Rightarrow>
               if Status lib = 0 then
                 (case loadLib env lib of
                    Inl lib \<Rightarrow>
                      (LibraryCache_Set (store st a lib) (SourcePath lib) a,
                       Inr (VString (Messages lib)))
                  | Inr lib \<Rightarrow>
                      (LibraryCache_Set (store st a lib) (SourcePath lib) a,
                       if Status lib \<noteq> 1 then Inr (VString (Messages lib))
                       else dispatch env lib ctx templ lang e))
               else
                 (store st a lib,
                  if Status lib \<noteq> 1 then Inr (VString (Messages lib))
                  else dispatch env lib ctx templ lang e)))"

section \<open>Notions of the specification\<close>

text \<open>
  A path matches when the store has a descriptor for it that is available for the kind
  of call. \<open>ancestor page k\<close> is the prefix of \<open>page\<close> made of its first \<open>k\<close>
  segments, and \<open>depth\<close> the number of separators of a path.
\<close>

definition matches :: "Server \<Rightarrow> bool \<Rightarrow> string \<Rightarrow> bool" where
  "matches srv innerpage P =
     (case pageserver_GetData srv P of Some pd \<Rightarrow> isAvailable innerpage pd | None \<Rightarrow> False)"

definition ancestor :: "string \<Rightarrow> nat \<Rightarrow> string" where
  "ancestor page k = Join (take k (Split page CHR ''/'')) CHR ''/''"

definition depth :: "string \<Rightarrow> nat" where
  "depth page = length (filter (\<lambda>c. c = CHR ''/'') page)"

section \<open>An example site\<close>

text \<open>
  A small site used to run the engine: a blog page that accepts path parameters inside two
  nested templates, a page whose code is the placeholder itself, a page that names itself
  as its template, a page that refuses path parameters and a redirect.
\<close>

definition examplePage :: PageData where
  "examplePage =
     \<lparr>status = ''published'', ptype = ''simple'', template = None,
      AcceptPathParameters = True, Redirect = None, redirecturl = [], redirectcode = 0\<rparr>"

definition exampleSite :: Server where
  "exampleSite =
     \<lparr>pageserver_GetData = (\<lambda>P.
        if P = ''blog'' then Some (examplePage\<lparr>template := Some ''frame''\<rparr>)
        else if P = ''frame''
          then Some (examplePage\<lparr>status := ''template'', ptype := ''template'',
                                   template := Some ''site''\<rparr>)
        else if P = ''site''
          then Some (examplePage\<lparr>status := ''template'', ptype := ''template''\<rparr>)
        else if P = ''raw'' then Some (examplePage\<lparr>template := Some ''site''\<rparr>)
        else if P = ''loop'' then Some (examplePage\<lparr>template := Some ''loop''\<rparr>)
        else if P = ''shop'' then Some (examplePage\<lparr>AcceptPathParameters := False\<rparr>)
        else if P = ''old''
          then Some (examplePage\<lparr>ptype := ''redirect'', Redirect := Some ''/new'',
                                   redirecturl := ''/new'', redirectcode := 999\<rparr>)
        else None),
      instanceserver_GetData = (\<lambda>P n. Some 0),
      codeserver_GetData = (\<lambda>P n. Some 0),
      libraryserver_GetData = (\<lambda>P. None),
      templateserver_GetData = (\<lambda>P n.
        if P = ''frame'' then Some 1 else if P = ''site'' then Some 2 else None),
      languageserver_GetData = (\<lambda>P n. None),
      codedata_Run = (\<lambda>c ctx l.
        if LocalPageUsed ctx = ''raw'' then ''[[CONTENT]]''
        else ''post:'' @ Join (LocalURLparams ctx) CHR '',''),
      librarydata_Run = (\<lambda>c ctx t l. []),
      templatedata_Print = (\<lambda>t.
        if t = 1 then ''<main>[[CONTENT]]</main>'' else ''<html>[[CONTENT]]</html>''),
      languagedata_Sprint = (\<lambda>l. [])\<rparr>"

definition exampleEngine :: Engine where
  "exampleEngine =
     \<lparr>Page = ''/blog/2023/01/post-1'',
      Host = \<lparr>config_mainpage = ''blog'', config_version = [], config_language = ''en''\<rparr>,
      MainContext = None, Recursivity = [], QT = 0, writer = []\<rparr>"

section \<open>Reading results\<close>

text \<open>
  The string a call of \<open>Engine.Run\<close> returns and what it has written, when it has
  returned without a panic. \<open>Contains\<close> is \<open>strings.Contains\<close>.
\<close>

definition returned_string :: "(panic + Engine \<times> string) option \<Rightarrow> string option" where
  "returned_string r = (case r of Some (Inr (e, s)) \<Rightarrow> Some s | _ \<Rightarrow> None)"

definition written :: "(panic + Engine \<times> string) option \<Rightarrow> effect list" where
  "written r = (case r of Some (Inr (e, s)) \<Rightarrow> writer e | _ \<Rightarrow> [])"

fun Contains :: "string \<Rightarrow> string \<Rightarrow> bool" where
  "Contains [] substr = (substr = [])"
| "Contains (c # cs) substr = (prefix substr (c # cs) \<or> Contains cs substr)"

text \<open>
  The codes generated along the chain of parent templates of a page, the page's own first:
  the walk \<open>Engine.Run\<close> makes, without the splicing. \<open>spliceAll\<close> is the composition
  the specification describes: the code of the outermost template, with the placeholder
  replaced by the code of the level below, once for every level below it.
\<close>

fun levels ::
  "nat \<Rightarrow> Server \<Rightarrow> Engine \<Rightarrow> string \<Rightarrow> bool \<Rightarrow> EntryParams \<Rightarrow> string \<Rightarrow> string
   \<Rightarrow> string list option" where
  "levels 0 srv e page innerpage params vers lang = None"
| "levels (Suc fuel) srv e page innerpage params vers lang =
     (case runPage srv e page innerpage params vers lang of
        Returned r \<Rightarrow> None
      | Generated e' pagedata xdata \<Rightarrow>
          (case template pagedata of
             None \<Rightarrow> Some [xdata]
           | Some x \<Rightarrow>
               if x = [] then Some [xdata]
               else map_option ((#) xdata) (levels fuel srv e' x True params vers lang)))"

fun spliceAll :: "string list \<Rightarrow> string" where
  "spliceAll [] = []"
| "spliceAll [b] = b"
| "spliceAll (b # bs) = Replace (spliceAll bs) ''[[CONTENT]]'' b"

section \<open>An example module\<close>

text \<open>
  A top-level context on a redirect descriptor with the code 999, and a compiled module
  that is loaded and ready, with the collaborators of the library engine around it: the
  source exists, the compiled file is older than the source, the compiler fails, the
  build identifier cannot be computed, the plugin opens and has a standard \<open>Run\<close>.
\<close>

definition exampleContext :: AContext where
  "exampleContext =
     \<lparr>IsMainPage = True, AMainPage = ''old'',
      AMainPageparams = examplePage\<lparr>ptype := ''redirect'', Redirect := Some ''/new'',
                                    redirecturl := ''/new'', redirectcode := 999\<rparr>,
      AMainURLparams = [], Code = 200, Writer = []\<rparr>"

definition exampleInstance :: LibraryEngineInstance where
  "exampleInstance =
     \<lparr>InstanceSourcePath = ''pages/app/app.go'', InstancePluginPath = ''pages/app/site-app.so''\<rparr>"

definition examplePlugin :: Plugin where
  "examplePlugin =
     \<lparr>SourcePath = ''pages/app/app.go'', PluginPath = ''pages/app/site-app.so'',
      PluginVPath = ''pages/app/site-app.so.1'', Version = 1, Messages = [], Status = 1,
      Libs = [''build-1'' \<mapsto> 7], Lib = Some 7, Run = Some 0\<rparr>"

definition exampleLibState :: LibState where
  "exampleLibState =
     \<lparr>objects = (\<lambda>a. examplePlugin), nextObject = 1,
      LibraryCache = [''pages/app/app.go'' \<mapsto> 0]\<rparr>"

definition exampleEnv :: LibEnv where
  "exampleEnv =
     \<lparr>FileExists = (\<lambda>path. True),
      ModTime = (\<lambda>path. 10),
      FileValidator = (\<lambda>path t. False),
      PleaseCompile = (\<lambda>lib. (Some ''syntax error'', lib)),
      CombinedOutput = (\<lambda>path. ([], Some ''exit status 1'')),
      plugin_Open = (\<lambda>path. Inr 8),
      Lookup = (\<lambda>h name. if name = ''Run'' then Inr (StandardFunction 0)
                          else Inl ''symbol not found''),
      call = (\<lambda>f ctx t l e. VString ''hello''),
      Title = (\<lambda>s. s),
      injectLanguage = (\<lambda>l s. s),
      xml_Unmarshal = (\<lambda>s. Inl ''no xml''),
      json_Marshal_app = (\<lambda>app. Inl ''no json''),
      json_Marshal_message = (\<lambda>s. Inl ''no json''),
      json_Marshal = (\<lambda>v. Inl ''no json'')\<rparr>"

section \<open>Identities: the candidate matrix\<close>

lemma fold_append_map:
  "fold (\<lambda>l acc. acc @ [f l]) ls acc = acc @ map f ls"
  by (induction ls arbitrary: acc) simp_all

lemma identities_concat:
  "fold (\<lambda>v acc. fold (\<lambda>l acc. acc @ [\<lparr>IdVersion = v, IdLanguage = l\<rparr>]) ls acc) vs acc
   = acc @ concat (map (\<lambda>v. map (\<lambda>l. \<lparr>IdVersion = v, IdLanguage = l\<rparr>) ls) vs)"
  by (induction vs arbitrary: acc) (simp_all add: fold_append_map)

lemma identities_product:
  "identities vs ls = map (\<lambda>(v, l). \<lparr>IdVersion = v, IdLanguage = l\<rparr>) (List.product vs ls)"
  unfolding identities_def identities_concat
  by (induction vs) (simp_all add: comp_def)

lemma firstData_asked:
  "fst (firstData g ns) =
     takeWhile (\<lambda>n. g n = None) ns @ take 1 (dropWhile (\<lambda>n. g n = None) ns)"
  by (induction ns) (auto split: option.splits prod.splits)

lemma firstData_result:
  "snd (firstData g ns) =
     (case find (\<lambda>n. g n \<noteq> None) ns of None \<Rightarrow> None | Some n \<Rightarrow> g n)"
  by (induction ns) (auto split: option.splits prod.splits)

text \<open>
  C4. The identities are the cross product of the version candidates (the default, the
  version asked when it is not empty and not the default, the empty version) with the
  language candidates built the same way, versions outermost, so at most nine; the lookup
  asks the store for them in that order and stops at the first one that has data.
\<close>

theorem identities_cross_product:
  "identities (versions dv v) (languages dl l)
     = map (\<lambda>(v, l). \<lparr>IdVersion = v, IdLanguage = l\<rparr>)
         (List.product ([dv] @ (if v \<noteq> [] \<and> v \<noteq> dv then [v] else []) @ [[]])
                       ([dl] @ (if l \<noteq> [] \<and> l \<noteq> dl then [l] else []) @ [[]]))
   \<and> length (identities (versions dv v) (languages dl l)) \<le> 9
   \<and> fst (firstData g (identities (versions dv v) (languages dl l)))
       = takeWhile (\<lambda>n. g n = None) (identities (versions dv v) (languages dl l))
         @ take 1 (dropWhile (\<lambda>n. g n = None) (identities (versions dv v) (languages dl l)))
   \<and> snd (firstData g (identities (versions dv v) (languages dl l)))
       = (case find (\<lambda>n. g n \<noteq> None) (identities (versions dv v) (languages dl l)) of
            None \<Rightarrow> None
          | Some n \<Rightarrow> g n)"
proof -
  have vs: "versions dv v = [dv] @ (if v \<noteq> [] \<and> v \<noteq> dv then [v] else []) @ [[]]"
    by (simp add: versions_def)
  have ls: "languages dl l = [dl] @ (if l \<noteq> [] \<and> l \<noteq> dl then [l] else []) @ [[]]"
    by (simp add: languages_def)
  have p: "identities (versions dv v) (languages dl l)
     = map (\<lambda>(v, l). \<lparr>IdVersion = v, IdLanguage = l\<rparr>)
         (List.product ([dv] @ (if v \<noteq> [] \<and> v \<noteq> dv then [v] else []) @ [[]])
                       ([dl] @ (if l \<noteq> [] \<and> l \<noteq> dl then [l] else []) @ [[]]))"
    unfolding identities_product vs ls by (rule refl)
  have "length (versions dv v) \<le> 3" and "length (languages dl l) \<le> 3"
    unfolding vs ls by simp_all
  then have "length (versions dv v) * length (languages dl l) \<le> 3 * 3"
    by (rule mult_le_mono)
  then have n: "length (identities (versions dv v) (languages dl l)) \<le> 9"
    by (simp add: identities_product)
  show ?thesis
    using p n firstData_asked [of g] firstData_result [of g] by blast
qed

section \<open>The page locator\<close>

lemma Split_not_Nil: "Split s c \<noteq> []"
  by (induction s) (auto split: list.splits)

lemma Join_Split: "Join (Split s c) c = s"
proof (induction s)
  case Nil
  show ?case by simp
next
  case (Cons a s)
  obtain w ws where ws: "Split s c = w # ws"
    using Split_not_Nil [of s c] by (cases "Split s c") auto
  show ?case
  proof (cases "a = c")
    case True
    with Cons ws show ?thesis by simp
  next
    case False
    with Cons ws show ?thesis by (cases ws) auto
  qed
qed

lemma Split_no_sep: "w \<in> set (Split s c) \<Longrightarrow> c \<notin> set w"
  by (induction s arbitrary: w) (auto split: list.splits if_splits)

lemma Split_append_no_sep:
  "c \<notin> set x \<Longrightarrow> Split (x @ s) c = (case Split s c of w # ws \<Rightarrow> (x @ w) # ws | [] \<Rightarrow> [x])"
  by (induction x) (auto split: list.splits simp: Split_not_Nil)

lemma Split_Join:
  "xs \<noteq> [] \<Longrightarrow> \<forall>w \<in> set xs. c \<notin> set w \<Longrightarrow> Split (Join xs c) c = xs"
proof (induction xs c rule: Join.induct)
  case (1 sep)
  then show ?case by simp
next
  case (2 x sep)
  then show ?case using Split_append_no_sep [of sep x "[]"] by simp
next
  case (3 x y ys sep)
  then have "Split (Join (y # ys) sep) sep = y # ys" by simp
  with 3 show ?case using Split_append_no_sep [of sep x "sep # Join (y # ys) sep"] by simp
qed

lemma length_Split: "length (Split s c) = Suc (length (filter (\<lambda>x. x = c) s))"
  by (induction s) (auto split: list.splits simp: Split_not_Nil)

lemma Split_butlast:
  assumes "\<not> length (Split P c) \<le> 1"
  shows "Split (Join (butlast (Split P c)) c) c = butlast (Split P c)"
proof -
  have "butlast (Split P c) \<noteq> []" using assms by (cases "Split P c") (auto split: if_splits)
  moreover have "\<forall>w \<in> set (butlast (Split P c)). c \<notin> set w"
    using Split_no_sep in_set_butlastD by metis
  ultimately show ?thesis by (rule Split_Join)
qed

lemma Split_ancestor:
  assumes "1 \<le> k"
  shows "Split (ancestor page k) CHR ''/'' = take k (Split page CHR ''/'')"
  unfolding ancestor_def
proof (rule Split_Join)
  show "take k (Split page CHR ''/'') \<noteq> []" using assms Split_not_Nil [of page] by (cases "Split page CHR ''/''"; cases k) auto
  show "\<forall>w\<in>set (take k (Split page CHR ''/'')). CHR ''/'' \<notin> set w"
    using Split_no_sep in_set_takeD by metis
qed

lemma locate_spec:
  "locate srv innerpage P = (asked, r, Q) \<Longrightarrow>
   \<exists>m. 1 \<le> m \<and> m \<le> length (Split P CHR ''/'') \<and>
       asked = map (ancestor P) (rev [m..<Suc (length (Split P CHR ''/''))]) \<and>
       Q = ancestor P m \<and>
       (\<forall>k. m < k \<and> k \<le> length (Split P CHR ''/'') \<longrightarrow> \<not> matches srv innerpage (ancestor P k)) \<and>
       (case r of Some pd \<Rightarrow> pageserver_GetData srv Q = Some pd \<and> isAvailable innerpage pd
                | None \<Rightarrow> m = 1 \<and> \<not> matches srv innerpage Q)"
proof (induction srv innerpage P arbitrary: asked r Q rule: locate.induct)
  case (1 srv innerpage P)
  let ?xs = "Split P CHR ''/''"
  let ?n = "length ?xs"
  have npos: "1 \<le> ?n" using Split_not_Nil [of P] by (cases ?xs) auto
  have full: "ancestor P ?n = P" by (simp add: ancestor_def Join_Split)
  show ?case
  proof (cases "matches srv innerpage P")
    case True
    then obtain pd where pd: "pageserver_GetData srv P = Some pd" "isAvailable innerpage pd"
      by (auto simp: matches_def split: option.splits)
    with "1.prems" have "asked = [P]" "r = Some pd" "Q = P"
      by (auto simp: locate.simps [of srv innerpage P])
    with pd npos full show ?thesis
      by (intro exI [of _ ?n]) auto
  next
    case False
    then have miss: "(case pageserver_GetData srv P of
              Some pagedata \<Rightarrow> if isAvailable innerpage pagedata then Some pagedata else None
            | None \<Rightarrow> None) = None"
      by (auto simp: matches_def split: option.splits)
    show ?thesis
    proof (cases "?n \<le> 1")
      case True
      with miss "1.prems" have "asked = [P]" "r = None" "Q = P"
        by (auto simp: locate.simps [of srv innerpage P])
      moreover have "?n = 1" using True npos by simp
      ultimately show ?thesis using False full
        by (intro exI [of _ 1]) auto
    next
      case long: False
      let ?P' = "Join (butlast ?xs) CHR ''/''"
      obtain asked' r' Q' where rec: "locate srv innerpage ?P' = (asked', r', Q')"
        by (cases "locate srv innerpage ?P'") auto
      with miss long "1.prems" have res: "asked = P # asked'" "r = r'" "Q = Q'"
        by (auto simp: locate.simps [of srv innerpage P])
      have sp: "Split ?P' CHR ''/'' = butlast ?xs" using long by (rule Split_butlast)
      have anc: "ancestor ?P' k = ancestor P k" if "k \<le> ?n - 1" for k
        using that unfolding ancestor_def sp by (simp add: butlast_conv_take)
      from "1.IH" [OF miss refl long rec]
      obtain m where m: "1 \<le> m" "m \<le> ?n - 1"
        "asked' = map (ancestor ?P') (rev [m..<Suc (?n - 1)])"
        "Q' = ancestor ?P' m"
        "\<forall>k. m < k \<and> k \<le> ?n - 1 \<longrightarrow> \<not> matches srv innerpage (ancestor ?P' k)"
        "(case r' of Some pd \<Rightarrow> pageserver_GetData srv Q' = Some pd \<and> isAvailable innerpage pd
                | None \<Rightarrow> m = 1 \<and> \<not> matches srv innerpage Q')"
        by (auto simp: sp)
      have a1: "asked' = map (ancestor P) (rev [m..<Suc (?n - 1)])"
        unfolding m(3) by (rule map_cong) (auto simp del: upt_Suc intro!: anc)
      have sn: "Suc (?n - 1) = ?n" using npos by simp
      have a1': "asked' = map (ancestor P) (rev [m..<?n])"
        using a1 unfolding sn .
      have up: "[m..<Suc ?n] = [m..<?n] @ [?n]" using m(2) by simp
      have a2: "asked = map (ancestor P) (rev [m..<Suc ?n])"
        unfolding up res(1) a1' by (simp add: full)
      have a3: "\<forall>k. m < k \<and> k \<le> ?n \<longrightarrow> \<not> matches srv innerpage (ancestor P k)"
      proof (intro allI impI)
        fix k assume k: "m < k \<and> k \<le> ?n"
        show "\<not> matches srv innerpage (ancestor P k)"
        proof (cases "k = ?n")
          case True
          with False full show ?thesis by simp
        next
          case False
          with k have "k \<le> ?n - 1" by arith
          with m(5) k anc [of k] show ?thesis by auto
        qed
      qed
      have a4: "Q = ancestor P m" using res(3) m(4) anc [OF m(2)] by simp
      show ?thesis using m(1,2,6) a2 a3 a4 res
        by (intro exI [of _ m]) (auto split: option.splits)
    qed
  qed
qed

text \<open>
  C5. The locator asks the store for the full path first and then for the path with one
  more trailing segment cut off each time, so it asks at most depth + 1 times. The path
  it stops at is the longest ancestor that matches: every longer one has no descriptor or
  one that is not available. Without a match it has asked every ancestor down to the
  first segment, none matches, and \<open>Engine.Run\<close> returns with the 404 error "no page
  found".
\<close>

theorem locate_longest_ancestor:
  assumes "locate srv innerpage page = (asked, r, P)"
  shows "hd asked = page \<and>
         length asked \<le> depth page + 1 \<and>
         (\<exists>m. 1 \<le> m \<and> m \<le> depth page + 1 \<and>
              asked = map (ancestor page) (rev [m..<depth page + 2]) \<and>
              P = ancestor page m \<and>
              (\<forall>k. m < k \<and> k \<le> depth page + 1 \<longrightarrow> \<not> matches srv innerpage (ancestor page k)) \<and>
              (case r of
                 Some pd \<Rightarrow> pageserver_GetData srv P = Some pd \<and> isAvailable innerpage pd
               | None \<Rightarrow> m = 1 \<and> (\<forall>k. 1 \<le> k \<and> k \<le> depth page + 1 \<longrightarrow>
                                      \<not> matches srv innerpage (ancestor page k)))) \<and>
         (r = None \<longrightarrow>
            runPage srv e page innerpage params vers lang
              = Returned (Inr (launchError e innerpage
                                 (''Error 404: no page found .page for '' @ page))))"
proof -
  have n: "length (Split page CHR ''/'') = depth page + 1"
    by (simp add: length_Split depth_def)
  from locate_spec [OF assms] obtain m where m:
    "1 \<le> m" "m \<le> depth page + 1"
    "asked = map (ancestor page) (rev [m..<depth page + 2])"
    "P = ancestor page m"
    "\<forall>k. m < k \<and> k \<le> depth page + 1 \<longrightarrow> \<not> matches srv innerpage (ancestor page k)"
    "(case r of Some pd \<Rightarrow> pageserver_GetData srv P = Some pd \<and> isAvailable innerpage pd
              | None \<Rightarrow> m = 1 \<and> \<not> matches srv innerpage P)"
    unfolding n by auto
  have full: "ancestor page (depth page + 1) = page"
    using n by (simp add: ancestor_def Join_Split)
  have up: "[m..<depth page + 2] = [m..<depth page + 1] @ [depth page + 1]"
    using m(2) by simp
  have h: "hd asked = page" unfolding m(3) up using full by simp
  have l: "length asked \<le> depth page + 1" unfolding m(3) using m(1) by (simp del: upt_Suc)
  have c: "(case r of
                 Some pd \<Rightarrow> pageserver_GetData srv P = Some pd \<and> isAvailable innerpage pd
               | None \<Rightarrow> m = 1 \<and> (\<forall>k. 1 \<le> k \<and> k \<le> depth page + 1 \<longrightarrow>
                                      \<not> matches srv innerpage (ancestor page k)))"
  proof (cases r)
    case None
    with m(6) have m1: "m = 1" and miss: "\<not> matches srv innerpage (ancestor page 1)"
      using m(4) by auto
    have "\<not> matches srv innerpage (ancestor page k)" if "1 \<le> k \<and> k \<le> depth page + 1" for k
    proof (cases "k = 1")
      case True
      with miss show ?thesis by simp
    next
      case False
      with that m1 have "m < k \<and> k \<le> depth page + 1" by arith
      with m(5) show ?thesis by blast
    qed
    with None m1 show ?thesis by simp
  next
    case (Some pd)
    with m(6) show ?thesis by simp
  qed
  have nf: "runPage srv e page innerpage params vers lang
              = Returned (Inr (launchError e innerpage
                                 (''Error 404: no page found .page for '' @ page)))"
    if "r = None"
    using assms that by (simp add: runPage_def)
  have ex: "\<exists>m. 1 \<le> m \<and> m \<le> depth page + 1 \<and>
              asked = map (ancestor page) (rev [m..<depth page + 2]) \<and>
              P = ancestor page m \<and>
              (\<forall>k. m < k \<and> k \<le> depth page + 1 \<longrightarrow> \<not> matches srv innerpage (ancestor page k)) \<and>
              (case r of
                 Some pd \<Rightarrow> pageserver_GetData srv P = Some pd \<and> isAvailable innerpage pd
               | None \<Rightarrow> m = 1 \<and> (\<forall>k. 1 \<le> k \<and> k \<le> depth page + 1 \<longrightarrow>
                                      \<not> matches srv innerpage (ancestor page k)))"
    using m(1,2,3,4,5) c by blast
  show ?thesis using h l ex nf by blast
qed

lemma example_locate:
  "locate exampleSite False ''blog/2023/01/post-1''
   = ([''blog/2023/01/post-1'', ''blog/2023/01'', ''blog/2023'', ''blog''],
      Some (examplePage\<lparr>template := Some ''frame''\<rparr>), ''blog'')"
  by (simp add: locate.simps exampleSite_def examplePage_def isAvailable_def)

theorem locate_longest_ancestor_witness:
  "locate exampleSite False ''blog/2023/01/post-1''
     = ([''blog/2023/01/post-1'', ''blog/2023/01'', ''blog/2023'', ''blog''],
        Some (examplePage\<lparr>template := Some ''frame''\<rparr>), ''blog'')
   \<and> length [''blog/2023/01/post-1'', ''blog/2023/01'', ''blog/2023'', ''blog'']
       \<le> depth ''blog/2023/01/post-1'' + 1
   \<and> (\<exists>m. ''blog'' = ancestor ''blog/2023/01/post-1'' m
            \<and> (\<forall>k. m < k \<and> k \<le> depth ''blog/2023/01/post-1'' + 1 \<longrightarrow>
                     \<not> matches exampleSite False (ancestor ''blog/2023/01/post-1'' k)))
   \<and> locate exampleSite False ''nothing/here'' = ([''nothing/here'', ''nothing''], None, ''nothing'')
   \<and> runPage exampleSite exampleEngine ''nothing/here'' False None [] []
       = Returned (Inr (launchError exampleEngine False
                          ''Error 404: no page found .page for nothing/here''))"
proof -
  have h: "locate exampleSite False ''blog/2023/01/post-1''
     = ([''blog/2023/01/post-1'', ''blog/2023/01'', ''blog/2023'', ''blog''],
        Some (examplePage\<lparr>template := Some ''frame''\<rparr>), ''blog'')"
    by (simp add: locate.simps exampleSite_def examplePage_def isAvailable_def)
  have n: "locate exampleSite False ''nothing/here''
     = ([''nothing/here'', ''nothing''], None, ''nothing'')"
    by (simp add: locate.simps exampleSite_def)
  have a: "length [''blog/2023/01/post-1'', ''blog/2023/01'', ''blog/2023'', ''blog'']
       \<le> depth ''blog/2023/01/post-1'' + 1"
    using locate_longest_ancestor [OF h] by blast
  have b: "\<exists>m. ''blog'' = ancestor ''blog/2023/01/post-1'' m
            \<and> (\<forall>k. m < k \<and> k \<le> depth ''blog/2023/01/post-1'' + 1 \<longrightarrow>
                     \<not> matches exampleSite False (ancestor ''blog/2023/01/post-1'' k))"
    using locate_longest_ancestor [OF h] by blast
  have c: "runPage exampleSite exampleEngine ''nothing/here'' False None [] []
       = Returned (Inr (launchError exampleEngine False
                          (''Error 404: no page found .page for '' @ ''nothing/here'')))"
    using locate_longest_ancestor [OF n, of exampleEngine None "[]" "[]"] by blast
  show ?thesis using h n a b c by simp
qed

section \<open>Path parameters\<close>

lemma Join_append:
  "xs \<noteq> [] \<Longrightarrow> ys \<noteq> [] \<Longrightarrow> Join (xs @ ys) c = Join xs c @ c # Join ys c"
proof (induction xs c rule: Join.induct)
  case (1 sep)
  then show ?case by simp
next
  case (2 x sep)
  then show ?case by (cases ys) simp_all
next
  case (3 x y ys sep)
  then show ?case by simp
qed

lemma ancestor_split:
  assumes "1 \<le> m" and "m < length (Split page CHR ''/'')"
  shows "page = ancestor page m @ CHR ''/'' # Join (drop m (Split page CHR ''/'')) CHR ''/''"
proof -
  let ?xs = "Split page CHR ''/''"
  have "take m ?xs \<noteq> []" using assms by (cases ?xs; cases m) auto
  moreover have "drop m ?xs \<noteq> []" using assms by simp
  ultimately have "Join (take m ?xs @ drop m ?xs) CHR ''/''
      = Join (take m ?xs) CHR ''/'' @ CHR ''/'' # Join (drop m ?xs) CHR ''/''"
    by (rule Join_append)
  then show ?thesis by (simp add: ancestor_def Join_Split)
qed

lemma xParams_segments:
  assumes "1 \<le> m" and "m \<le> length (Split page CHR ''/'')" and "ancestor page m \<noteq> page"
  shows "xParams page (ancestor page m) = drop m (Split page CHR ''/'')"
    and "length (ancestor page m) + 1 \<le> length page"
proof -
  let ?xs = "Split page CHR ''/''"
  have "m \<noteq> length ?xs" using assms(3) by (auto simp: ancestor_def Join_Split)
  with assms have lt: "m < length ?xs" by simp
  have pg: "page = ancestor page m @ CHR ''/'' # Join (drop m ?xs) CHR ''/''"
    using assms(1) lt by (rule ancestor_split)
  have "length page = length (ancestor page m) + 1 + length (Join (drop m ?xs) CHR ''/'')"
    by (subst pg) simp
  then show "length (ancestor page m) + 1 \<le> length page" by simp
  have "drop (length (ancestor page m) + 1) page = Join (drop m ?xs) CHR ''/''"
    by (subst pg) simp
  moreover have "Split (Join (drop m ?xs) CHR ''/'') CHR ''/'' = drop m ?xs"
  proof (rule Split_Join)
    show "drop m ?xs \<noteq> []" using lt by simp
    show "\<forall>w\<in>set (drop m ?xs). CHR ''/'' \<notin> set w"
      using Split_no_sep in_set_dropD by metis
  qed
  ultimately show "xParams page (ancestor page m) = drop m ?xs"
    using assms(3) by (simp add: xParams_def)
qed

lemma locate_slice_in_bounds:
  assumes "locate srv innerpage page = (asked, r, P)" and "P \<noteq> page"
  shows "length P + 1 \<le> length page"
proof -
  from locate_spec [OF assms(1)] obtain m where
    m: "1 \<le> m" "m \<le> length (Split page CHR ''/'')" "P = ancestor page m"
    by auto
  have "ancestor page m \<noteq> page" using assms(2) m(3) by simp
  from xParams_segments(2) [OF m(1,2) this] show ?thesis using m(3) by simp
qed

text \<open>
  C8. When the descriptor found is for a strict ancestor \<open>P\<close> of the page asked, a
  descriptor that does not accept path parameters makes the call return with the 404
  error "no page found with parameters"; otherwise the parameters are the segments of the
  page after those of \<open>P\<close>: the page is \<open>P\<close>, a separator and the parameters joined,
  and the slice taken from the page is within bounds.
\<close>

theorem path_parameters:
  assumes "locate srv innerpage page = (asked, Some pagedata, P)" and "P \<noteq> page"
  shows "(\<not> AcceptPathParameters pagedata \<longrightarrow>
            runPage srv e page innerpage params vers lang
              = Returned (Inr (launchError e innerpage ''Error 404: no page found with parameters'')))
       \<and> length P + 1 \<le> length page
       \<and> runPage srv e page innerpage params vers lang \<noteq> Returned (Inl SliceBoundsOutOfRange)
       \<and> page = P @ ''/'' @ Join (xParams page P) CHR ''/''
       \<and> Split page CHR ''/'' = Split P CHR ''/'' @ xParams page P
       \<and> xParams page P \<noteq> []"
proof -
  let ?xs = "Split page CHR ''/''"
  from locate_spec [OF assms(1)] obtain m where m: "1 \<le> m" "m \<le> length ?xs" "P = ancestor page m"
    by auto
  have ne: "ancestor page m \<noteq> page" using assms(2) m(3) by simp
  have xp: "xParams page P = drop m ?xs" and len: "length P + 1 \<le> length page"
    using xParams_segments [OF m(1,2) ne] m(3) by simp_all
  have "m \<noteq> length ?xs" using ne by (auto simp: ancestor_def Join_Split)
  with m have lt: "m < length ?xs" by simp
  have sp: "Split P CHR ''/'' = take m ?xs" unfolding m(3) using m(1) by (rule Split_ancestor)
  have c3: "page = P @ ''/'' @ Join (xParams page P) CHR ''/''"
    using ancestor_split [OF m(1) lt] m(3) xp by simp
  have c4: "?xs = Split P CHR ''/'' @ xParams page P" by (simp add: sp xp)
  have c5: "xParams page P \<noteq> []" using xp lt by simp
  have c1: "\<not> AcceptPathParameters pagedata \<Longrightarrow>
            runPage srv e page innerpage params vers lang
              = Returned (Inr (launchError e innerpage ''Error 404: no page found with parameters''))"
    using assms by (simp add: runPage_def)
  have c2: "runPage srv e page innerpage params vers lang \<noteq> Returned (Inl SliceBoundsOutOfRange)"
    using assms len
    by (auto simp: runPage_def Let_def makeContext_def
             split: option.splits sum.splits prod.splits)
  show ?thesis using c1 c2 c3 c4 c5 len by blast
qed


lemmas example_defs =
  runPage_def locate.simps exampleSite_def examplePage_def exampleEngine_def isAvailable_def
  identities_def versions_def languages_def makeContext_def pageCode_def loadTemplate_def
  loadLanguage_def xParams_def verifyRecursion_def launchError_def launchRedirect_def Let_def

theorem path_parameters_witness:
  "locate exampleSite False ''blog/2023/01/post-1''
     = ([''blog/2023/01/post-1'', ''blog/2023/01'', ''blog/2023'', ''blog''],
        Some (examplePage\<lparr>template := Some ''frame''\<rparr>), ''blog'')
   \<and> xParams ''blog/2023/01/post-1'' ''blog'' = [''2023'', ''01'', ''post-1'']
   \<and> Split ''blog/2023/01/post-1'' CHR ''/''
       = Split ''blog'' CHR ''/'' @ xParams ''blog/2023/01/post-1'' ''blog''
   \<and> locate exampleSite False ''shop/cart''
       = ([''shop/cart'', ''shop''], Some (examplePage\<lparr>AcceptPathParameters := False\<rparr>), ''shop'')
   \<and> runPage exampleSite exampleEngine ''shop/cart'' False None [] []
       = Returned (Inr (exampleEngine\<lparr>writer :=
            [HttpError ''Error 404: no page found with parameters'' 404]\<rparr>, []))"
proof -
  have h1: "locate exampleSite False ''blog/2023/01/post-1''
     = ([''blog/2023/01/post-1'', ''blog/2023/01'', ''blog/2023'', ''blog''],
        Some (examplePage\<lparr>template := Some ''frame''\<rparr>), ''blog'')"
    by (simp add: locate.simps exampleSite_def examplePage_def isAvailable_def)
  have h2: "''blog'' \<noteq> ''blog/2023/01/post-1''" by simp
  have h3: "locate exampleSite False ''shop/cart''
       = ([''shop/cart'', ''shop''], Some (examplePage\<lparr>AcceptPathParameters := False\<rparr>), ''shop'')"
    by (simp add: locate.simps exampleSite_def examplePage_def isAvailable_def)
  have h4: "''shop'' \<noteq> ''shop/cart''" by simp
  have x: "xParams ''blog/2023/01/post-1'' ''blog'' = [''2023'', ''01'', ''post-1'']"
    by (simp add: xParams_def)
  have a: "\<not> AcceptPathParameters (examplePage\<lparr>AcceptPathParameters := False\<rparr>)" by simp
  have w: "launchError exampleEngine False ''Error 404: no page found with parameters''
     = (exampleEngine\<lparr>writer :=
            [HttpError ''Error 404: no page found with parameters'' 404]\<rparr>, [])"
    by (simp add: launchError_def exampleEngine_def)
  show ?thesis
    using path_parameters [OF h1 h2, of exampleEngine None "[]" "[]"]
      path_parameters [OF h3 h4, of exampleEngine None "[]" "[]"] h1 h3 x a w
    by simp
qed

section \<open>The entry point\<close>

lemma runPage_no_index_panic:
  "runPage srv e page innerpage params vers lang \<noteq> Returned (Inl IndexOutOfRange)"
  by (auto simp: runPage_def Let_def makeContext_def
           split: option.splits sum.splits prod.splits)

lemma Engine_Run_no_index_panic:
  "Engine_Run fuel srv e page innerpage params vers lang method \<noteq> Some (Inl IndexOutOfRange)"
proof (induction fuel arbitrary: e page innerpage)
  case 0
  show ?case by simp
next
  case (Suc fuel)
  show ?case
  proof (cases "runPage srv e page innerpage params vers lang")
    case (Returned r)
    then show ?thesis using runPage_no_index_panic [of srv e page innerpage params vers lang]
      by auto
  next
    case (Generated e' pagedata xdata)
    then show ?thesis using Suc [of e' _ True]
      by (auto split: option.splits sum.splits)
  qed
qed

text \<open>
  C9. \<open>Engine.Start\<close> reads \<open>page[0]\<close> before any test of the length: with an empty
  path the read is out of range, whatever the site; with a path that is not empty no index
  read fails. The main page is substituted after the slashes have been cut, that is for
  the path \<open>/\<close>.
\<close>

theorem Start_empty_path:
  "(Page e = [] \<longrightarrow> Start fuel srv e = Some (Inl IndexOutOfRange))
   \<and> (Page e \<noteq> [] \<longrightarrow> Start fuel srv e \<noteq> Some (Inl IndexOutOfRange))
   \<and> (Page e = ''/'' \<longrightarrow>
        Start fuel srv e =
          (case Engine_Run fuel srv (e\<lparr>QT := QT e + 1\<rparr>) (config_mainpage (Host e))
                  False None [] [] [] of
             None \<Rightarrow> None
           | Some (Inl p) \<Rightarrow> Some (Inl p)
           | Some (Inr (e', code)) \<Rightarrow> Some (Inr (e'\<lparr>writer := writer e' @ [Write code]\<rparr>))))"
proof (intro conjI impI)
  assume "Page e = []"
  then show "Start fuel srv e = Some (Inl IndexOutOfRange)" by (simp add: Start_def)
next
  assume "Page e \<noteq> []"
  then obtain c rest where p: "Page e = c # rest" by (cases "Page e") auto
  show "Start fuel srv e \<noteq> Some (Inl IndexOutOfRange)"
    using p Engine_Run_no_index_panic [of fuel srv "e\<lparr>QT := QT e + 1\<rparr>"]
    by (auto simp: Start_def Let_def split: option.splits sum.splits)
next
  assume "Page e = ''/''"
  then show "Start fuel srv e =
          (case Engine_Run fuel srv (e\<lparr>QT := QT e + 1\<rparr>) (config_mainpage (Host e))
                  False None [] [] [] of
             None \<Rightarrow> None
           | Some (Inl p) \<Rightarrow> Some (Inl p)
           | Some (Inr (e', code)) \<Rightarrow> Some (Inr (e'\<lparr>writer := writer e' @ [Write code]\<rparr>)))"
    by (simp add: Start_def)
qed

theorem Start_empty_path_witness:
  "Start 0 exampleSite (exampleEngine\<lparr>Page := []\<rparr>) = Some (Inl IndexOutOfRange)
   \<and> Start (Suc (Suc (Suc 0))) exampleSite exampleEngine \<noteq> Some (Inl IndexOutOfRange)
   \<and> Start (Suc (Suc (Suc 0))) exampleSite (exampleEngine\<lparr>Page := ''/''\<rparr>)
       = (case Engine_Run (Suc (Suc (Suc 0))) exampleSite (exampleEngine\<lparr>Page := ''/'', QT := 1\<rparr>)
                ''blog'' False None [] [] [] of
             None \<Rightarrow> None
           | Some (Inl p) \<Rightarrow> Some (Inl p)
           | Some (Inr (e', code)) \<Rightarrow> Some (Inr (e'\<lparr>writer := writer e' @ [Write code]\<rparr>)))"
  using Start_empty_path [of "exampleEngine\<lparr>Page := []\<rparr>" 0 exampleSite]
    Start_empty_path [of exampleEngine "Suc (Suc (Suc 0))" exampleSite]
    Start_empty_path [of "exampleEngine\<lparr>Page := ''/''\<rparr>" "Suc (Suc (Suc 0))" exampleSite]
  by (simp add: exampleEngine_def)

lemma example_blog_run:
  "returned_string (Engine_Run (Suc (Suc (Suc 0))) exampleSite exampleEngine ''blog/2023/01/post-1''
      False None [] [] [])
   = Some ''<html><main>post:2023,01,post-1</main></html>''"
  by (simp add: returned_string_def example_defs)

section \<open>Recursion of templates\<close>

lemma loop_runPage:
  assumes "innerpage \<longrightarrow> MainContext e \<noteq> None"
  shows "\<exists>e' xdata. runPage exampleSite e ''loop'' innerpage params vers lang
            = Generated e' (examplePage\<lparr>template := Some ''loop''\<rparr>) xdata
          \<and> MainContext e' \<noteq> None"
proof -
  have l: "locate exampleSite innerpage ''loop''
      = ([''loop''], Some (examplePage\<lparr>template := Some ''loop''\<rparr>), ''loop'')"
    by (simp add: locate.simps exampleSite_def examplePage_def isAvailable_def)
  have i: "snd (firstData (instanceserver_GetData exampleSite ''loop'')
                 (identities (versions dv vers) (languages dl lang))) = Some 0" for dv dl
    by (simp add: exampleSite_def identities_def versions_def languages_def Let_def)
  have c: "pageCode exampleSite ctx (examplePage\<lparr>template := Some ''loop''\<rparr>) ''loop''
             (identities (versions dv vers) (languages dl lang))
           = Inr (codedata_Run exampleSite 0 ctx (loadLanguage exampleSite ''loop''
                    (identities (versions dv vers) (languages dl lang))))" for ctx dv dl
    by (simp add: pageCode_def exampleSite_def examplePage_def identities_def versions_def
        languages_def Let_def)
  show ?thesis
  proof (cases innerpage)
    case True
    with assms obtain m where "MainContext e = Some m" by auto
    with True l i c show ?thesis
      by (simp add: runPage_def Let_def verifyRecursion_def makeContext_def examplePage_def)
  next
    case False
    with l i c show ?thesis
      by (simp add: runPage_def Let_def verifyRecursion_def makeContext_def examplePage_def)
  qed
qed

lemma loop_never_returns:
  "innerpage \<longrightarrow> MainContext e \<noteq> None \<Longrightarrow>
   Engine_Run fuel exampleSite e ''loop'' innerpage params vers lang method = None"
proof (induction fuel arbitrary: e innerpage)
  case 0
  show ?case by simp
next
  case (Suc fuel)
  from loop_runPage [OF Suc.prems] obtain e' xdata where
    r: "runPage exampleSite e ''loop'' innerpage params vers lang
            = Generated e' (examplePage\<lparr>template := Some ''loop''\<rparr>) xdata"
    and m: "MainContext e' \<noteq> None"
    by blast
  have "Engine_Run fuel exampleSite e' ''loop'' True params vers lang method = None"
    using m by (intro Suc.IH) simp
  with r show ?case by simp
qed

text \<open>
  C3. The recursion check of \<open>Engine.Run\<close> reports no cycle even for a path that is
  already in the chain of the engine, and the page of the example site that names itself
  as its template is composed without end: the call does not return, whatever the fuel.
\<close>

theorem verifyRecursion_reports_no_cycle:
  "verifyRecursion (e\<lparr>Recursivity := [P]\<rparr>) P = False
   \<and> pageserver_GetData exampleSite ''loop'' = Some (examplePage\<lparr>template := Some ''loop''\<rparr>)
   \<and> Engine_Run fuel exampleSite exampleEngine ''loop'' False None [] [] [] = None"
proof -
  have "Engine_Run fuel exampleSite exampleEngine ''loop'' False None [] [] [] = None"
    by (rule loop_never_returns) simp
  then show ?thesis by (simp add: verifyRecursion_def exampleSite_def)
qed

section \<open>Composition of templates\<close>

lemma levels_not_Nil: "levels fuel srv e page innerpage params vers lang \<noteq> Some []"
  by (cases fuel) (auto split: stage.splits option.splits)

text \<open>
  C7, as amended. When every level of the chain of parent templates of a page generates
  its code, \<open>Engine.Run\<close> returns the code of the outermost template in which, level by
  level, every occurrence of the placeholder has been replaced by the code of the level
  below: one replacement for each parent, each parent rendered by an inner call.
\<close>

theorem template_composition:
  assumes "levels fuel srv e page innerpage params vers lang = Some bs"
  shows "returned_string (Engine_Run fuel srv e page innerpage params vers lang method)
           = Some (spliceAll bs)"
  using assms
proof (induction fuel arbitrary: e page innerpage bs)
  case 0
  then show ?case by simp
next
  case (Suc fuel)
  show ?case
  proof (cases "runPage srv e page innerpage params vers lang")
    case (Returned r)
    with Suc.prems show ?thesis by simp
  next
    case (Generated e' pagedata xdata)
    show ?thesis
    proof (cases "template pagedata = None \<or> template pagedata = Some []")
      case True
      with Generated Suc.prems show ?thesis
        by (auto simp: returned_string_def)
    next
      case False
      then obtain x where x: "template pagedata = Some x" "x \<noteq> []" by auto
      with Generated Suc.prems obtain bs' where
        bs': "levels fuel srv e' x True params vers lang = Some bs'" "bs = xdata # bs'"
        by auto
      have ne: "bs' \<noteq> []" using bs'(1) levels_not_Nil by metis
      from Suc.IH [OF bs'(1)] obtain e'' where
        "Engine_Run fuel srv e' x True params vers lang method = Some (Inr (e'', spliceAll bs'))"
        by (auto simp: returned_string_def split: option.splits sum.splits)
      with Generated x bs'(2) ne show ?thesis
        by (cases bs') (simp_all add: returned_string_def)
    qed
  qed
qed

theorem template_composition_witness:
  "levels (Suc (Suc (Suc 0))) exampleSite exampleEngine ''blog/2023/01/post-1'' False None [] []
     = Some [''post:2023,01,post-1'', ''<main>[[CONTENT]]</main>'', ''<html>[[CONTENT]]</html>'']
   \<and> returned_string (Engine_Run (Suc (Suc (Suc 0))) exampleSite exampleEngine
         ''blog/2023/01/post-1'' False None [] [] [])
       = Some ''<html><main>post:2023,01,post-1</main></html>''"
proof -
  have h: "levels (Suc (Suc (Suc 0))) exampleSite exampleEngine ''blog/2023/01/post-1'' False None [] []
     = Some [''post:2023,01,post-1'', ''<main>[[CONTENT]]</main>'', ''<html>[[CONTENT]]</html>'']"
    by (simp add: example_defs)
  have s: "spliceAll [''post:2023,01,post-1'', ''<main>[[CONTENT]]</main>'', ''<html>[[CONTENT]]</html>'']
      = ''<html><main>post:2023,01,post-1</main></html>''"
    by simp
  show ?thesis using template_composition [OF h, of "[]"] h s by simp
qed

text \<open>
  C7 as stated fails: the page \<open>raw\<close> of the example site has one parent template and
  its own code is the placeholder, which is still in the output after the one replacement.
\<close>

theorem placeholder_left_counterexample:
  "levels (Suc (Suc 0)) exampleSite exampleEngine ''raw'' False None [] []
     = Some [''[[CONTENT]]'', ''<html>[[CONTENT]]</html>'']
   \<and> returned_string (Engine_Run (Suc (Suc 0)) exampleSite exampleEngine ''raw'' False None [] [] [])
       = Some ''<html>[[CONTENT]]</html>''
   \<and> Contains ''<html>[[CONTENT]]</html>'' ''[[CONTENT]]''"
  by (simp add: returned_string_def example_defs)

section \<open>Redirects\<close>

text \<open>
  C1, as amended. The redirect engine, called for the main page with a redirect URL that is
  not empty, redirects to it with the code of the descriptor when that is 301, 302, 307 or
  308 and with 308 otherwise; without a URL, or in an inner call, it sets the status 500 and
  returns an error. The core engine, on a top-level call that finds a descriptor of type
  redirect, redirects to the descriptor's \<open>Redirect\<close> value with the code 301.
\<close>

theorem redirect_code:
  "(IsMainPage ctx \<and> redirecturl (AMainPageparams ctx) \<noteq> [] \<longrightarrow>
      RedirectEngine_Run ctx
        = (ctx\<lparr>Writer := Writer ctx
               @ [HttpRedirect (redirecturl (AMainPageparams ctx))
                    (if redirectcode (AMainPageparams ctx) \<in> {301, 302, 307, 308}
                     then redirectcode (AMainPageparams ctx) else 308)]\<rparr>,
           VString []))
   \<and> (\<not> IsMainPage ctx \<or> redirecturl (AMainPageparams ctx) = [] \<longrightarrow>
      RedirectEngine_Run ctx
        = (ctx\<lparr>Code := 500\<rparr>,
           VError (''Please specify redirecturl and redirectcode in .page '' @ AMainPage ctx)))
   \<and> (locate srv False page = (asked, Some pagedata, P)
        \<and> (P = page \<or> AcceptPathParameters pagedata)
        \<and> ptype pagedata = ''redirect'' \<and> Redirect pagedata = Some url \<longrightarrow>
      Engine_Run (Suc fuel) srv e page False params vers lang method
        = Some (Inr (e\<lparr>writer := writer e @ [HttpRedirect url 301]\<rparr>, [])))"
proof (intro conjI impI)
  assume "IsMainPage ctx \<and> redirecturl (AMainPageparams ctx) \<noteq> []"
  then show "RedirectEngine_Run ctx
        = (ctx\<lparr>Writer := Writer ctx
               @ [HttpRedirect (redirecturl (AMainPageparams ctx))
                    (if redirectcode (AMainPageparams ctx) \<in> {301, 302, 307, 308}
                     then redirectcode (AMainPageparams ctx) else 308)]\<rparr>,
           VString [])"
    by (simp add: RedirectEngine_Run_def Let_def)
next
  assume "\<not> IsMainPage ctx \<or> redirecturl (AMainPageparams ctx) = []"
  then show "RedirectEngine_Run ctx
        = (ctx\<lparr>Code := 500\<rparr>,
           VError (''Please specify redirecturl and redirectcode in .page '' @ AMainPage ctx))"
    by (auto simp: RedirectEngine_Run_def Let_def)
next
  assume a: "locate srv False page = (asked, Some pagedata, P)
        \<and> (P = page \<or> AcceptPathParameters pagedata)
        \<and> ptype pagedata = ''redirect'' \<and> Redirect pagedata = Some url"
  then have l: "locate srv False page = (asked, Some pagedata, P)" by simp
  have b: "P \<noteq> page \<Longrightarrow> \<not> length page < length P + 1"
    using locate_slice_in_bounds [OF l] by simp
  have "runPage srv e page False params vers lang = Returned (Inr (launchRedirect e url, []))"
    using a b by (auto simp: runPage_def)
  then show "Engine_Run (Suc fuel) srv e page False params vers lang method
        = Some (Inr (e\<lparr>writer := writer e @ [HttpRedirect url 301]\<rparr>, []))"
    by (simp add: launchRedirect_def)
qed

theorem redirect_code_witness:
  "RedirectEngine_Run exampleContext
     = (exampleContext\<lparr>Writer := [HttpRedirect ''/new'' 308]\<rparr>, VString [])
   \<and> RedirectEngine_Run (exampleContext\<lparr>IsMainPage := False\<rparr>)
     = (exampleContext\<lparr>IsMainPage := False, Code := 500\<rparr>,
        VError ''Please specify redirecturl and redirectcode in .page old'')
   \<and> Engine_Run (Suc 0) exampleSite exampleEngine ''old'' False None [] [] []
     = Some (Inr (exampleEngine\<lparr>writer := [HttpRedirect ''/new'' 301]\<rparr>, []))"
proof -
  have l: "locate exampleSite False ''old''
     = ([''old''], Some (examplePage\<lparr>ptype := ''redirect'', Redirect := Some ''/new'',
                                   redirecturl := ''/new'', redirectcode := 999\<rparr>), ''old'')"
    by (simp add: locate.simps exampleSite_def examplePage_def isAvailable_def)
  have c: "IsMainPage exampleContext \<and> redirecturl (AMainPageparams exampleContext) \<noteq> []"
    by (simp add: exampleContext_def)
  have d: "\<not> IsMainPage (exampleContext\<lparr>IsMainPage := False\<rparr>)" by simp
  show ?thesis
    using redirect_code [of exampleContext exampleSite "''old''" "[''old'']"
        "examplePage\<lparr>ptype := ''redirect'', Redirect := Some ''/new'',
                                   redirecturl := ''/new'', redirectcode := 999\<rparr>" "''old''"
        "''/new''" 0 exampleEngine None "[]" "[]" "[]"]
      redirect_code [of "exampleContext\<lparr>IsMainPage := False\<rparr>"] l c d
    by (simp add: exampleContext_def exampleEngine_def)
qed

text \<open>
  C1 as stated fails: for the descriptor \<open>old\<close> of the example site, of type redirect
  with the code 999, the core engine answers with a 301; and the redirect engine, given a
  redirect descriptor with the code 999 and no URL, answers with the error and no redirect.
\<close>

theorem redirect_code_counterexample:
  "pageserver_GetData exampleSite ''old''
     = Some (examplePage\<lparr>ptype := ''redirect'', Redirect := Some ''/new'',
                           redirecturl := ''/new'', redirectcode := 999\<rparr>)
   \<and> written (Engine_Run (Suc 0) exampleSite exampleEngine ''old'' False None [] [] [])
       = [HttpRedirect ''/new'' 301]
   \<and> RedirectEngine_Run
         (exampleContext\<lparr>AMainPageparams := examplePage\<lparr>ptype := ''redirect'',
                                                           redirectcode := 999\<rparr>\<rparr>)
       = (exampleContext\<lparr>AMainPageparams := examplePage\<lparr>ptype := ''redirect'',
                                                            redirectcode := 999\<rparr>,
                          Code := 500\<rparr>,
          VError ''Please specify redirecturl and redirectcode in .page old'')"
  by (simp add: written_def example_defs RedirectEngine_Run_def exampleContext_def)

section \<open>The library engine: a source file that is missing\<close>

lemma getLib_objects:
  "getLib st p = (a, lib, st') \<Longrightarrow> objects st' = objects st \<and> LibraryCache st' = LibraryCache st"
  by (auto simp: getLib_def split: option.splits)

lemma getLib_cached:
  "LibraryCache st (InstanceSourcePath p) = Some a \<Longrightarrow> getLib st p = (a, objects st a, st)"
  by (simp add: getLib_def)

lemma getLib_fresh:
  "getLib st p = (a, lib, st') \<Longrightarrow> LibraryCache st (InstanceSourcePath p) = None \<Longrightarrow>
   SourcePath lib = InstanceSourcePath p \<and> Status lib = 0"
  by (auto simp: getLib_def)

text \<open>
  C6. When the source file of the module does not exist, the call leaves the module in the
  status 2 (error), with the diagnostic appended to its messages only if the status was not
  2 before, and returns the messages. A further call while the file is still missing
  changes nothing and returns the same messages.
\<close>

theorem source_missing_once:
  assumes "getLib st p = (a, lib, st')"
    and "\<not> FileExists env (SourcePath lib)"
    and "\<not> FileExists env2 (SourcePath lib)"
    and "LibraryEngineInstance_Run env st p ctx templ lang e = (st1, r1)"
  shows "Status (objects st1 a) = 2
       \<and> Messages (objects st1 a)
           = (if Status lib \<noteq> 2
              then Messages lib @ ''Error: '' @ SourcePath lib
                   @ '' Source file does not exists.'' @ [CHR 0x0A]
              else Messages lib)
       \<and> r1 = Inr (VString (Messages (objects st1 a)))
       \<and> LibraryEngineInstance_Run env2 st1 p ctx2 templ2 lang2 e2 = (st1, r1)"
proof (cases "Status lib = 2")
  case True
  with assms(1,2,4) have st1: "st1 = st'" and r1: "r1 = Inr (VString (Messages lib))"
    by (simp_all add: LibraryEngineInstance_Run_def)
  have cached: "LibraryCache st (InstanceSourcePath p) = Some a"
    using assms(1) True by (auto simp: getLib_def split: option.splits)
  then have g: "getLib st p = (a, objects st a, st)" by (rule getLib_cached)
  with assms(1) have eq: "lib = objects st a" "st' = st" by auto
  have "LibraryEngineInstance_Run env2 st p ctx2 templ2 lang2 e2 = (st, r1)"
    using g True assms(3) eq r1 by (simp add: LibraryEngineInstance_Run_def)
  then show ?thesis using True st1 r1 eq by simp
next
  case False
  let ?lib = "lib\<lparr>Status := 2, Messages := Messages lib @ ''Error: '' @ SourcePath lib
                   @ '' Source file does not exists.'' @ [CHR 0x0A]\<rparr>"
  from False assms(1,2,4)
  have st1: "st1 = LibraryCache_Set (store st' a ?lib) (SourcePath lib) a"
    and r1: "r1 = Inr (VString (Messages ?lib))"
    by (simp_all add: LibraryEngineInstance_Run_def Let_def)
  have obj: "objects st1 a = ?lib" by (simp add: st1 LibraryCache_Set_def store_def)
  have key: "LibraryCache st1 (InstanceSourcePath p) = Some a"
  proof (cases "LibraryCache st (InstanceSourcePath p)")
    case None
    with assms(1) have "SourcePath lib = InstanceSourcePath p" using getLib_fresh by blast
    then show ?thesis by (simp add: st1 LibraryCache_Set_def store_def)
  next
    case (Some b)
    with assms(1) have "b = a" by (simp add: getLib_def)
    with Some getLib_objects [OF assms(1)] show ?thesis
      by (simp add: st1 LibraryCache_Set_def store_def)
  qed
  have g: "getLib st1 p = (a, ?lib, st1)" using getLib_cached [OF key] obj by simp
  have "LibraryEngineInstance_Run env2 st1 p ctx2 templ2 lang2 e2 = (st1, r1)"
    using g assms(3) r1 by (simp add: LibraryEngineInstance_Run_def)
  then show ?thesis using False obj r1 by simp
qed


theorem source_missing_once_witness:
  "Status (objects (fst (LibraryEngineInstance_Run (exampleEnv\<lparr>FileExists := (\<lambda>path. False)\<rparr>)
       exampleLibState exampleInstance exampleContext None None None)) 0) = 2
   \<and> snd (LibraryEngineInstance_Run (exampleEnv\<lparr>FileExists := (\<lambda>path. False)\<rparr>)
       exampleLibState exampleInstance exampleContext None None None)
     = Inr (VString (''Error: pages/app/app.go Source file does not exists.'' @ [CHR 0x0A]))
   \<and> snd (LibraryEngineInstance_Run (exampleEnv\<lparr>FileExists := (\<lambda>path. False)\<rparr>)
       (fst (LibraryEngineInstance_Run (exampleEnv\<lparr>FileExists := (\<lambda>path. False)\<rparr>)
          exampleLibState exampleInstance exampleContext None None None))
       exampleInstance exampleContext None None None)
     = Inr (VString (''Error: pages/app/app.go Source file does not exists.'' @ [CHR 0x0A]))"
proof -
  let ?env = "exampleEnv\<lparr>FileExists := (\<lambda>path. False)\<rparr>"
  let ?R = "LibraryEngineInstance_Run ?env exampleLibState exampleInstance exampleContext
              None None None"
  have g: "getLib exampleLibState exampleInstance = (0, examplePlugin, exampleLibState)"
    by (simp add: getLib_def exampleLibState_def exampleInstance_def)
  have f: "\<not> FileExists ?env (SourcePath examplePlugin)" by simp
  have r: "?R = (fst ?R, snd ?R)" by simp
  have m: "Messages examplePlugin = [] \<and> Status examplePlugin = 1
           \<and> SourcePath examplePlugin = ''pages/app/app.go''"
    by (simp add: examplePlugin_def)
  show ?thesis
    using source_missing_once [OF g f f r, of exampleContext None None None] m by simp
qed

section \<open>The library engine: a compilation that fails\<close>

text \<open>
  C2, as amended. When the module must be compiled and the compiler fails, the module gets
  the status 2 (error) and the diagnostic is appended to its messages, the module is set in
  the cache, and the call returns the messages as its content, whether a plugin had been
  loaded for the module before or not: the handles stay in the module, nothing is
  dispatched to them.
\<close>

theorem compile_failure_returns_messages:
  assumes "getLib st p = (a, lib, st')"
    and "FileExists env (SourcePath lib)"
    and "mustcompile env lib"
    and "PleaseCompile env (lib\<lparr>Status := 0\<rparr>) = (Some err, lib')"
    and "LibraryEngineInstance_Run env st p ctx templ lang e = (st1, r1)"
  shows "Status (objects st1 a) = 2
       \<and> Messages (objects st1 a)
           = Messages lib' @ ''Error: '' @ SourcePath lib' @ '' could not compile:''
             @ [CHR 0x0A] @ err
       \<and> LibraryCache st1 (SourcePath lib') = Some a
       \<and> Lib (objects st1 a) = Lib lib' \<and> Libs (objects st1 a) = Libs lib'
       \<and> r1 = Inr (VString (Messages (objects st1 a)))"
proof -
  let ?lib = "lib'\<lparr>Status := 2,
                    Messages := Messages lib' @ ''Error: '' @ SourcePath lib'
                                @ '' could not compile:'' @ [CHR 0x0A] @ err\<rparr>"
  have c: "compileLib env lib = Inl ?lib"
    using assms(3,4) by (simp add: compileLib_def)
  have "LibraryEngineInstance_Run env st p ctx templ lang e
      = (LibraryCache_Set (store st' a ?lib) (SourcePath ?lib) a, Inr (VString (Messages ?lib)))"
    using assms(1,2) c by (simp add: LibraryEngineInstance_Run_def)
  with assms(5) have "st1 = LibraryCache_Set (store st' a ?lib) (SourcePath ?lib) a"
    and "r1 = Inr (VString (Messages ?lib))"
    by simp_all
  then show ?thesis by (simp add: LibraryCache_Set_def store_def)
qed

theorem compile_failure_returns_messages_witness:
  "Lib (objects exampleLibState 0) = Some 7
   \<and> snd (LibraryEngineInstance_Run exampleEnv exampleLibState exampleInstance exampleContext
            None None None)
       = Inr (VString (''Error: pages/app/app.go could not compile:'' @ [CHR 0x0A]
                       @ ''syntax error''))
   \<and> Status (objects (fst (LibraryEngineInstance_Run exampleEnv exampleLibState exampleInstance
                             exampleContext None None None)) 0) = 2"
proof -
  let ?R = "LibraryEngineInstance_Run exampleEnv exampleLibState exampleInstance exampleContext
              None None None"
  have g: "getLib exampleLibState exampleInstance = (0, examplePlugin, exampleLibState)"
    by (simp add: getLib_def exampleLibState_def exampleInstance_def)
  have f: "FileExists exampleEnv (SourcePath examplePlugin)" by (simp add: exampleEnv_def)
  have m: "mustcompile exampleEnv examplePlugin" by (simp add: mustcompile_def exampleEnv_def)
  have c: "PleaseCompile exampleEnv (examplePlugin\<lparr>Status := 0\<rparr>)
             = (Some ''syntax error'', examplePlugin\<lparr>Status := 0\<rparr>)"
    by (simp add: exampleEnv_def)
  have r: "?R = (fst ?R, snd ?R)" by simp
  have v: "Messages examplePlugin = [] \<and> SourcePath examplePlugin = ''pages/app/app.go''
           \<and> Lib examplePlugin = Some 7"
    by (simp add: examplePlugin_def)
  have o: "objects exampleLibState 0 = examplePlugin" by (simp add: exampleLibState_def)
  show ?thesis
    using compile_failure_returns_messages [OF g f m c r] v o by simp
qed

text \<open>
  C2 as stated fails: the example module is ready with a loaded plugin whose \<open>Run\<close>
  would answer \<open>hello\<close>; its compiled file is stale and the compiler fails; the call
  returns the error messages, not the answer of the plugin.
\<close>

theorem compile_failure_counterexample:
  "Lib (objects exampleLibState 0) = Some 7
   \<and> Libs (objects exampleLibState 0) ''build-1'' = Some 7
   \<and> dispatch exampleEnv (objects exampleLibState 0) exampleContext None None None
       = Inr (VString ''hello'')
   \<and> snd (LibraryEngineInstance_Run exampleEnv exampleLibState exampleInstance exampleContext
            None None None)
       = Inr (VString (''Error: pages/app/app.go could not compile:'' @ [CHR 0x0A]
                       @ ''syntax error''))"
  by (simp add: LibraryEngineInstance_Run_def getLib_def compileLib_def mustcompile_def
      dispatch_def exampleLibState_def exampleInstance_def examplePlugin_def exampleEnv_def
      exampleContext_def LibraryCache_Set_def store_def Let_def)

section \<open>The library engine: a build identifier that cannot be computed\<close>

text \<open>
  C10. When \<open>go tool buildid\<close> fails, \<open>getBuildId\<close> returns the text
  "Error running go tool buildid:" followed by the error, a string like any identifier: the
  loader behaves as if the tool had printed that text. With no plugin registered under
  it, a plugin that opens and a standard \<open>Run\<close> in it, the plugin is registered under
  the error text, the module gets the status 1 (ready) and the call is dispatched.
\<close>

theorem buildid_failure_is_not_an_error:
  assumes "CombinedOutput env (PluginVPath lib) = (out, Some err)"
  shows "getBuildId env (PluginVPath lib) = ''Error running go tool buildid:'' @ [CHR 0x0A] @ err
       \<and> loadLib env lib
           = loadLib (env\<lparr>CombinedOutput :=
                        (\<lambda>path. (''Error running go tool buildid:'' @ [CHR 0x0A] @ err, None))\<rparr>) lib
       \<and> (Libs lib (''Error running go tool buildid:'' @ [CHR 0x0A] @ err) = None
            \<and> plugin_Open env (PluginVPath lib) = Inr h
            \<and> Lookup env h ''Run'' = Inr (StandardFunction f) \<longrightarrow>
          loadLib env lib
            = Inr (lib\<lparr>Lib := Some h,
                       Libs := (Libs lib)(''Error running go tool buildid:'' @ [CHR 0x0A] @ err \<mapsto> h),
                       Run := Some f, Status := 1\<rparr>))
       \<and> (getLib st p = (a, lib0, st') \<and> FileExists env (SourcePath lib0)
            \<and> compileLib env lib0 = Inr lib \<and> Status lib = 0
            \<and> Libs lib (''Error running go tool buildid:'' @ [CHR 0x0A] @ err) = None
            \<and> plugin_Open env (PluginVPath lib) = Inr h
            \<and> Lookup env h ''Run'' = Inr (StandardFunction f) \<longrightarrow>
          snd (LibraryEngineInstance_Run env st p ctx templ lang e)
            = dispatch env
                (lib\<lparr>Lib := Some h,
                     Libs := (Libs lib)(''Error running go tool buildid:'' @ [CHR 0x0A] @ err \<mapsto> h),
                     Run := Some f, Status := 1\<rparr>) ctx templ lang e
          \<and> Status (objects (fst (LibraryEngineInstance_Run env st p ctx templ lang e)) a) = 1
          \<and> Libs (objects (fst (LibraryEngineInstance_Run env st p ctx templ lang e)) a)
               (''Error running go tool buildid:'' @ [CHR 0x0A] @ err) = Some h)"
proof -
  let ?key = "''Error running go tool buildid:'' @ [CHR 0x0A] @ err"
  let ?lib = "lib\<lparr>Lib := Some h, Libs := (Libs lib)(?key \<mapsto> h), Run := Some f, Status := 1\<rparr>"
  have k: "getBuildId env (PluginVPath lib) = ?key"
    using assms by (simp add: getBuildId_def)
  have k2: "getBuildId (env\<lparr>CombinedOutput := (\<lambda>path. (?key, None))\<rparr>) (PluginVPath lib) = ?key"
    by (simp add: getBuildId_def)
  have lr: "lookupRun (env\<lparr>CombinedOutput := c\<rparr>) l' h' = lookupRun env l' h'" for c l' h'
    by (simp add: lookupRun_def)
  have same: "loadLib env lib = loadLib (env\<lparr>CombinedOutput := (\<lambda>path. (?key, None))\<rparr>) lib"
    unfolding loadLib_def k k2 by (simp add: lr Let_def split: option.splits sum.splits)
  have load: "loadLib env lib = Inr ?lib"
    if "Libs lib ?key = None \<and> plugin_Open env (PluginVPath lib) = Inr h
        \<and> Lookup env h ''Run'' = Inr (StandardFunction f)"
    unfolding loadLib_def k using that by (simp add: lookupRun_def Let_def)
  have run: "snd (LibraryEngineInstance_Run env st p ctx templ lang e)
            = dispatch env ?lib ctx templ lang e
          \<and> Status (objects (fst (LibraryEngineInstance_Run env st p ctx templ lang e)) a) = 1
          \<and> Libs (objects (fst (LibraryEngineInstance_Run env st p ctx templ lang e)) a) ?key = Some h"
    if h: "getLib st p = (a, lib0, st') \<and> FileExists env (SourcePath lib0)
            \<and> compileLib env lib0 = Inr lib \<and> Status lib = 0
            \<and> Libs lib ?key = None
            \<and> plugin_Open env (PluginVPath lib) = Inr h
            \<and> Lookup env h ''Run'' = Inr (StandardFunction f)"
  proof -
    have l: "loadLib env lib = Inr ?lib" using h by (intro load) simp
    have "LibraryEngineInstance_Run env st p ctx templ lang e
        = (LibraryCache_Set (store st' a ?lib) (SourcePath ?lib) a,
           dispatch env ?lib ctx templ lang e)"
      using h l by (simp add: LibraryEngineInstance_Run_def)
    then show ?thesis by (simp add: LibraryCache_Set_def store_def)
  qed
  show ?thesis using k same load run by blast
qed


theorem buildid_failure_is_not_an_error_witness:
  "getBuildId (exampleEnv\<lparr>PleaseCompile := (\<lambda>lib. (None, lib))\<rparr>) ''pages/app/site-app.so.1''
     = ''Error running go tool buildid:'' @ [CHR 0x0A] @ ''exit status 1''
   \<and> snd (LibraryEngineInstance_Run (exampleEnv\<lparr>PleaseCompile := (\<lambda>lib. (None, lib))\<rparr>)
            exampleLibState exampleInstance exampleContext None None None)
       = Inr (VString ''hello'')
   \<and> Status (objects (fst (LibraryEngineInstance_Run
                (exampleEnv\<lparr>PleaseCompile := (\<lambda>lib. (None, lib))\<rparr>)
                exampleLibState exampleInstance exampleContext None None None)) 0) = 1
   \<and> Libs (objects (fst (LibraryEngineInstance_Run
                (exampleEnv\<lparr>PleaseCompile := (\<lambda>lib. (None, lib))\<rparr>)
                exampleLibState exampleInstance exampleContext None None None)) 0)
        (''Error running go tool buildid:'' @ [CHR 0x0A] @ ''exit status 1'') = Some 8"
proof -
  let ?env = "exampleEnv\<lparr>PleaseCompile := (\<lambda>lib. (None, lib))\<rparr>"
  let ?lib = "examplePlugin\<lparr>Status := 0\<rparr>"
  have b: "CombinedOutput ?env (PluginVPath ?lib) = ([], Some ''exit status 1'')"
    by (simp add: exampleEnv_def)
  have g: "getLib exampleLibState exampleInstance = (0, examplePlugin, exampleLibState)"
    by (simp add: getLib_def exampleLibState_def exampleInstance_def)
  have f: "FileExists ?env (SourcePath examplePlugin)" by (simp add: exampleEnv_def)
  have c: "compileLib ?env examplePlugin = Inr ?lib"
    by (simp add: compileLib_def mustcompile_def exampleEnv_def)
  have s: "Status ?lib = 0" by simp
  have n: "Libs ?lib (''Error running go tool buildid:'' @ [CHR 0x0A] @ ''exit status 1'') = None"
    by (simp add: examplePlugin_def)
  have p: "plugin_Open ?env (PluginVPath ?lib) = Inr 8" by (simp add: exampleEnv_def)
  have l: "Lookup ?env 8 ''Run'' = Inr (StandardFunction 0)" by (simp add: exampleEnv_def)
  have v: "PluginVPath ?lib = ''pages/app/site-app.so.1''" by (simp add: examplePlugin_def)
  have d: "dispatch ?env
             (?lib\<lparr>Lib := Some 8,
                   Libs := (Libs ?lib)(''Error running go tool buildid:'' @ [CHR 0x0A]
                                       @ ''exit status 1'' \<mapsto> 8),
                   Run := Some 0, Status := 1\<rparr>) exampleContext None None None
           = Inr (VString ''hello'')"
    by (simp add: dispatch_def exampleEnv_def exampleContext_def)
  show ?thesis
    using buildid_failure_is_not_an_error [OF b, of 8 0 exampleLibState exampleInstance 0
        examplePlugin exampleLibState exampleContext None None None] g f c s n p l v d
    by simp
qed

end
